(* ===== verification/Prelude.thy ===== *)
theory Prelude
  imports Complex_Main "HOL-Library.Sublist"
begin

text \<open>
  Shared vocabulary of the development: the Python string operations the sources call
  (\<open>sep.join(xs)\<close> and \<open>s.split(sep)\<close>) as functions on lists, the bind of the
  error sum \<open>'e + 'a\<close> used to thread Python exceptions through a handler, and the
  generic list lemmas the component theories share.  The collection \<open>model_eval\<close>
  gathers the equations that evaluate the model on concrete inputs.
\<close>

named_theorems model_eval "equations that evaluate the model on concrete inputs"

subsection \<open>Exceptions as values\<close>

text \<open>
  A Python statement that may raise is a value of \<open>'e + 'a\<close>: \<open>Inl e\<close> is the
  exception \<open>e\<close> propagating, \<open>Inr a\<close> the normal result.  \<open>err_bind\<close> runs the
  rest of the code only when the first part did not raise.
\<close>

definition err_bind :: "'e + 'a \<Rightarrow> ('a \<Rightarrow> 'e + 'b) \<Rightarrow> 'e + 'b" where
  "err_bind m f = (case m of Inl e \<Rightarrow> Inl e | Inr a \<Rightarrow> f a)"

subsection \<open>\<open>sep.join(xs)\<close>\<close>

fun py_join :: "'a list \<Rightarrow> 'a list list \<Rightarrow> 'a list" where
  "py_join sep [] = []"
| "py_join sep [x] = x"
| "py_join sep (x # y # ys) = x @ sep @ py_join sep (y # ys)"

subsection \<open>\<open>s.split(sep)\<close>\<close>

text \<open>
  Python's \<open>str.split\<close> with an explicit separator cuts at the leftmost occurrence,
  then continues after it; \<open>acc\<close> is the piece read so far.  An empty separator
  raises \<open>ValueError\<close> in Python; the model never splits then.
\<close>

function split_acc :: "'a list \<Rightarrow> 'a list \<Rightarrow> 'a list \<Rightarrow> 'a list list" where
  "split_acc sep acc [] = [acc]"
| "split_acc sep acc (c # cs) =
     (if sep \<noteq> [] \<and> prefix sep (c # cs)
      then acc # split_acc sep [] (drop (length sep) (c # cs))
      else split_acc sep (acc @ [c]) cs)"
  by pat_completeness auto
termination
  by (relation "measure (\<lambda>(sep, acc, s). length s)") auto

definition py_split :: "'a list \<Rightarrow> 'a list \<Rightarrow> 'a list list" where
  "py_split sep s = split_acc sep [] s"

text \<open>
  Splitting undoes joining when no piece, followed by the separator's proper prefix,
  contains the separator: the leftmost occurrence is then always a joint.
\<close>

definition split_safe :: "'a list \<Rightarrow> 'a list \<Rightarrow> bool" where
  "split_safe sep x \<longleftrightarrow> \<not> sublist sep (x @ butlast sep)"

subsection \<open>Facts: Exceptions as values\<close>

lemma err_bind_Inl [simp]: "err_bind (Inl e) f = Inl e"
  by (simp add: err_bind_def)

lemma err_bind_Inr [simp]: "err_bind (Inr a) f = f a"
  by (simp add: err_bind_def)

lemma err_bind_eq_Inr [simp]:
  "err_bind m f = Inr b \<longleftrightarrow> (\<exists>a. m = Inr a \<and> f a = Inr b)"
  by (cases m) simp_all

lemma map_sum_err_bind:
  "map_sum id f (err_bind m g) = err_bind m (\<lambda>a. map_sum id f (g a))"
  by (cases m) simp_all

subsection \<open>Facts: \<open>sep.join(xs)\<close>\<close>

lemma py_join_Cons_Cons [model_eval]:
  "ys \<noteq> [] \<Longrightarrow> py_join sep (x # ys) = x @ sep @ py_join sep ys"
  by (cases ys) simp_all

lemma py_join_length:
  "xs \<noteq> [] \<Longrightarrow>
     length (py_join sep xs) = sum_list (map length xs) + length sep * (length xs - 1)"
  by (induction sep xs rule: py_join.induct) simp_all

lemma py_join_empty_iff:
  "py_join sep xs = [] \<longleftrightarrow> (\<forall>x \<in> set xs. x = []) \<and> (sep = [] \<or> length xs \<le> 1)"
  by (induction sep xs rule: py_join.induct) auto

lemma set_py_join:
  "set (py_join sep xs) \<subseteq> \<Union> (set ` set xs) \<union> set sep"
  by (induction sep xs rule: py_join.induct) auto

lemma set_py_join_no_sep:
  "length xs \<le> 1 \<Longrightarrow> set (py_join sep xs) = \<Union> (set ` set xs)"
  by (cases xs) auto

lemma set_py_join_sup: "x \<in> set xs \<Longrightarrow> set x \<subseteq> set (py_join sep xs)"
  by (induction sep xs rule: py_join.induct) auto

lemma py_join_all_iff:
  assumes "\<forall>c \<in> set sep. P c"
  shows "(\<forall>c \<in> set (py_join sep xs). P c) \<longleftrightarrow> (\<forall>x \<in> set xs. \<forall>c \<in> set x. P c)"
proof
  assume "\<forall>c \<in> set (py_join sep xs). P c"
  then show "\<forall>x \<in> set xs. \<forall>c \<in> set x. P c"
    using set_py_join_sup by blast
next
  assume "\<forall>x \<in> set xs. \<forall>c \<in> set x. P c"
  then show "\<forall>c \<in> set (py_join sep xs). P c"
    using set_py_join [of sep xs] assms by blast
qed

subsection \<open>Facts: \<open>s.split(sep)\<close>\<close>

lemma prefix_append_short:
  assumes "prefix p (u @ v)" and "length p \<le> length u"
  shows "prefix p u"
  using assms by (metis prefix_append prefix_length_prefix prefix_order.refl)

lemma split_acc_no_sep:
  "\<not> sublist sep x \<Longrightarrow> split_acc sep acc x = [acc @ x]"
proof (induction x arbitrary: acc)
  case Nil
  then show ?case by simp
next
  case (Cons c x)
  have "\<not> prefix sep (c # x)"
    using Cons.prems by (auto dest: prefix_imp_sublist)
  moreover have "\<not> sublist sep x"
    using Cons.prems by (simp add: sublist_Cons_right)
  ultimately show ?case using Cons.IH by simp
qed

lemma split_acc_at_sep:
  assumes "sep \<noteq> []" and "\<not> sublist sep (x @ butlast sep)"
  shows "split_acc sep acc (x @ sep @ rest) = (acc @ x) # split_acc sep [] rest"
  using assms(2)
proof (induction x arbitrary: acc)
  case Nil
  from assms(1) obtain c cs where "sep = c # cs" by (cases sep) auto
  then show ?case by simp
next
  case (Cons c x)
  have short: "length sep \<le> length ((c # x) @ butlast sep)"
    using assms(1) by simp
  have "(c # x) @ sep @ rest = ((c # x) @ butlast sep) @ [last sep] @ rest"
    using assms(1) by simp
  then have "\<not> prefix sep ((c # x) @ sep @ rest)"
    using Cons.prems short prefix_append_short prefix_imp_sublist
    by (metis append_assoc)
  moreover have "\<not> sublist sep (x @ butlast sep)"
    using Cons.prems by (simp add: sublist_Cons_right)
  ultimately show ?case using Cons.IH by simp
qed

lemma sublist_single_iff [simp]: "sublist [c] xs \<longleftrightarrow> c \<in> set xs"
  by (auto simp: sublist_def in_set_conv_decomp)

lemma split_safe_single [simp]: "split_safe [c] x \<longleftrightarrow> c \<notin> set x"
  by (simp add: split_safe_def)

lemma split_safe_no_sublist: "split_safe sep x \<Longrightarrow> \<not> sublist sep x"
  unfolding split_safe_def by (meson sublist_append_rightI sublist_order.order.trans)

lemma py_split_py_join:
  assumes "sep \<noteq> []" and "xs \<noteq> []" and "\<forall>x \<in> set xs. split_safe sep x"
  shows "py_split sep (py_join sep xs) = xs"
proof -
  have "split_acc sep [] (py_join sep xs) = xs" if "xs \<noteq> []" "\<forall>x \<in> set xs. split_safe sep x"
    for xs using that
  proof (induction xs rule: induct_list012)
    case (2 x)
    then show ?case by (simp add: split_acc_no_sep split_safe_no_sublist)
  next
    case (3 x y ys)
    then have "split_acc sep [] (py_join sep (y # ys)) = y # ys"
      and "\<not> sublist sep (x @ butlast sep)"
      by (simp_all add: split_safe_def)
    then show ?case
      using split_acc_at_sep [OF assms(1)] by simp
  qed simp
  with assms show ?thesis by (simp add: py_split_def)
qed

end
