(* ===== verification/PyValue.thy ===== *)
theory PyValue
  imports Prelude
begin

text \<open>
  The values the program handles are what Python's \<open>json.load\<close> returns: \<open>None\<close>,
  booleans, integers, floats, strings, lists and dicts.  This theory holds that value
  type, the exceptions the sources can raise on it, and the Python builtins the sources
  apply to it: \<open>str\<close> and \<open>repr\<close> (used by \<open>convert_content_to_string\<close> in
  \<open>src/src/main_generator.py\<close> and by its f-strings), \<open>dict.get\<close>, \<open>in\<close> on a
  dict, subtraction of numbers and iteration.  These builtins are not code of the
  repository; they are modelled from the Python language reference for the values a
  JSON document can produce.

  Strings are Python \<open>str\<close> values whose code points are below 256 (one \<open>char\<close> per
  code point).  A JSON float is kept as the decimal \<open>m \<times> 10^e\<close> it denotes; its Python
  \<open>repr\<close> below is exact for decimals of at most 15 significant digits within the
  range of doubles, where the double nearest to the literal prints back as the literal.
\<close>

datatype jval =
    JNull
  | JBool bool
  | JInt int
  | JFloat int int
  | JStr string
  | JList "jval list"
  | JObj "(string \<times> jval) list"

datatype pyexc =
    TypeError string
  | AttributeError string
  | FileNotFoundError string

subsection \<open>Dicts\<close>

text \<open>
  \<open>json.load\<close> builds a dict per JSON object: each key once, in order of first
  appearance.  The object is an association list with distinct keys; \<open>d[k]\<close> and
  \<open>k in d\<close> are \<open>map_of\<close>.
\<close>

fun wf_json :: "jval \<Rightarrow> bool" where
  "wf_json (JList xs) = list_all wf_json xs"
| "wf_json (JObj kvs) = (distinct (map fst kvs) \<and> list_all (\<lambda>kv. wf_json (snd kv)) kvs)"
| "wf_json _ = True"

definition dict_has :: "(string \<times> jval) list \<Rightarrow> string \<Rightarrow> bool" where
  "dict_has kvs k \<longleftrightarrow> map_of kvs k \<noteq> None"

definition dict_get :: "(string \<times> jval) list \<Rightarrow> string \<Rightarrow> jval" where
  "dict_get kvs k = (case map_of kvs k of Some v \<Rightarrow> v | None \<Rightarrow> JNull)"

subsection \<open>Type names, as Python's error messages print them\<close>

fun py_type_name :: "jval \<Rightarrow> string" where
  "py_type_name JNull = ''NoneType''"
| "py_type_name (JBool _) = ''bool''"
| "py_type_name (JInt _) = ''int''"
| "py_type_name (JFloat _ _) = ''float''"
| "py_type_name (JStr _) = ''str''"
| "py_type_name (JList _) = ''list''"
| "py_type_name (JObj _) = ''dict''"

subsection \<open>Decimal digits\<close>

fun nat_digits :: "nat \<Rightarrow> string" where
  "nat_digits n =
     (if n < 10 then [char_of (48 + n)] else nat_digits (n div 10) @ [char_of (48 + n mod 10)])"

definition int_str :: "int \<Rightarrow> string" where
  "int_str i = (if i < 0 then CHR ''-'' # nat_digits (nat (- i)) else nat_digits (nat i))"

subsection \<open>\<open>repr\<close> of a float\<close>

text \<open>
  Python prints a float with the shortest digits that read back as the same double
  (\<open>float_repr_style = 'short'\<close>): positional with at least one fractional digit when
  the decimal exponent \<open>x\<close> of the leading digit satisfies \<open>-4 \<le> x < 16\<close>,
  otherwise \<open>d.ddde\<plusminus>XX\<close> with an exponent of at least two digits.
  \<open>strip_zeros\<close> removes trailing zeros of the digits into the exponent.
\<close>

function strip_zeros :: "nat \<Rightarrow> int \<Rightarrow> nat \<times> int" where
  "strip_zeros m e = (if m \<noteq> 0 \<and> m mod 10 = 0 then strip_zeros (m div 10) (e + 1) else (m, e))"
  by pat_completeness auto
termination
  by (relation "measure (\<lambda>(m, e). m)") auto

definition pad2 :: "string \<Rightarrow> string" where
  "pad2 s = (if length s < 2 then CHR ''0'' # s else s)"

definition float_repr :: "int \<Rightarrow> int \<Rightarrow> string" where
  "float_repr m e =
     (let sign = (if m < 0 then ''-'' else '''');
          (a, x) = strip_zeros (nat \<bar>m\<bar>) e
      in if a = 0 then ''0.0''
         else
           let ds = nat_digits a;
               n = int (length ds);
               dp = n + x;
               ex = dp - 1
           in sign @
              (if -4 \<le> ex \<and> ex < 16 then
                 (if dp \<le> 0 then ''0.'' @ replicate (nat (- dp)) (CHR ''0'') @ ds
                  else if dp < n then take (nat dp) ds @ ''.'' @ drop (nat dp) ds
                  else ds @ replicate (nat (dp - n)) (CHR ''0'') @ ''.0'')
               else
                 [hd ds] @ (if 1 < n then ''.'' @ tl ds else '''') @ ''e'' @
                 (if ex < 0 then ''-'' else ''+'') @ pad2 (nat_digits (nat \<bar>ex\<bar>))))"

text \<open>The numeric value of a JSON number, as Python's arithmetic sees it.\<close>

definition dec_val :: "int \<Rightarrow> int \<Rightarrow> real" where
  "dec_val m e = (if 0 \<le> e then of_int m * 10 ^ nat e else of_int m / 10 ^ nat (- e))"

fun py_num :: "jval \<Rightarrow> real option" where
  "py_num (JBool b) = Some (if b then 1 else 0)"
| "py_num (JInt i) = Some (of_int i)"
| "py_num (JFloat m e) = Some (dec_val m e)"
| "py_num _ = None"

subsection \<open>\<open>repr\<close> of a string\<close>

text \<open>
  Python quotes with \<open>'\<close> unless the string holds a \<open>'\<close> and no \<open>"\<close>; it escapes
  the quote and the backslash, writes tab, newline and carriage return as \<open>\t\<close>,
  \<open>\n\<close>, \<open>\r\<close>, other non-printable code points below 256 as \<open>\xhh\<close>, and keeps
  the printable ones (32 to 126, and 161 to 255 but the soft hyphen 173).
\<close>

definition hex_digit :: "nat \<Rightarrow> char" where
  "hex_digit n = (if n < 10 then char_of (48 + n) else char_of (87 + n))"

definition py_printable :: "char \<Rightarrow> bool" where
  "py_printable c \<longleftrightarrow>
     (let n = (of_char c :: nat) in (32 \<le> n \<and> n < 127) \<or> (161 \<le> n \<and> n \<noteq> 173))"

definition repr_char :: "char \<Rightarrow> char \<Rightarrow> string" where
  "repr_char q c =
     (let n = (of_char c :: nat) in
      if c = q \<or> n = 92 then [CHR 0x5C, c]
      else if n = 9 then [CHR 0x5C, CHR ''t'']
      else if n = 10 then [CHR 0x5C, CHR ''n'']
      else if n = 13 then [CHR 0x5C, CHR ''r'']
      else if py_printable c then [c]
      else [CHR 0x5C, CHR ''x'', hex_digit (n div 16), hex_digit (n mod 16)])"

definition py_repr_str :: "string \<Rightarrow> string" where
  "py_repr_str s =
     (let q = (if CHR 0x27 \<in> set s \<and> CHR 0x22 \<notin> set s then CHR 0x22 else CHR 0x27)
      in q # concat (map (repr_char q) s) @ [q])"

subsection \<open>\<open>repr\<close> and \<open>str\<close> of a value\<close>

text \<open>
  \<open>str\<close> of a list or dict prints its elements with \<open>repr\<close>; \<open>str\<close> and
  \<open>repr\<close> differ only on strings.  An f-string field \<open>{v}\<close> is \<open>format(v, '')\<close>,
  which is \<open>str(v)\<close> for all these types.
\<close>

primrec py_repr :: "jval \<Rightarrow> string" where
  "py_repr JNull = ''None''"
| "py_repr (JBool b) = (if b then ''True'' else ''False'')"
| "py_repr (JInt i) = int_str i"
| "py_repr (JFloat m e) = float_repr m e"
| "py_repr (JStr s) = py_repr_str s"
| "py_repr (JList xs) = CHR ''['' # py_join '', '' (map py_repr xs) @ '']''"
| "py_repr (JObj kvs) =
     CHR ''{'' # py_join '', ''
       (map (\<lambda>(k, r). py_repr_str k @ '': '' @ r) (map (map_prod id py_repr) kvs)) @ ''}''"

definition py_str :: "jval \<Rightarrow> string" where
  "py_str v = (case v of JStr s \<Rightarrow> s | _ \<Rightarrow> py_repr v)"

subsection \<open>Operations of the sources on values\<close>

text \<open>\<open>item.get(key, default)\<close>: only a dict has \<open>get\<close>.\<close>

definition py_get :: "jval \<Rightarrow> string \<Rightarrow> jval \<Rightarrow> pyexc + jval" where
  "py_get item k dflt =
     (case item of
        JObj kvs \<Rightarrow> Inr (case map_of kvs k of Some v \<Rightarrow> v | None \<Rightarrow> dflt)
      | _ \<Rightarrow> Inl (AttributeError (CHR 0x27 # py_type_name item @ [CHR 0x27] @
               '' object has no attribute '' @ [CHR 0x27] @ ''get'' @ [CHR 0x27])))"

text \<open>\<open>a - b\<close>: defined on \<open>bool\<close>, \<open>int\<close> and \<open>float\<close> operands only.\<close>

definition py_sub :: "jval \<Rightarrow> jval \<Rightarrow> pyexc + real" where
  "py_sub a b =
     (case (py_num a, py_num b) of
        (Some x, Some y) \<Rightarrow> Inr (x - y)
      | _ \<Rightarrow> Inl (TypeError (''unsupported operand type(s) for -: '' @
                 [CHR 0x27] @ py_type_name a @ ''' and '' @ [CHR 0x27] @ py_type_name b @ [CHR 0x27])))"

text \<open>Hashing, needed by \<open>x in d\<close>: lists and dicts are unhashable.\<close>

fun py_hashable :: "jval \<Rightarrow> bool" where
  "py_hashable (JList _) = False"
| "py_hashable (JObj _) = False"
| "py_hashable _ = True"

text \<open>\<open>for x in v\<close>: a list yields its items, a dict its keys, a string its characters.\<close>

fun py_iter :: "jval \<Rightarrow> pyexc + jval list" where
  "py_iter (JList xs) = Inr xs"
| "py_iter (JObj kvs) = Inr (map (\<lambda>kv. JStr (fst kv)) kvs)"
| "py_iter (JStr s) = Inr (map (\<lambda>c. JStr [c]) s)"
| "py_iter v = Inl (TypeError (CHR 0x27 # py_type_name v @ ''' object is not iterable''))"

subsection \<open>Facts: Dicts\<close>

lemma dict_has_Cons [simp]: "dict_has ((k', v) # kvs) k \<longleftrightarrow> k = k' \<or> dict_has kvs k"
  by (simp add: dict_has_def)

lemma dict_has_Nil [simp]: "\<not> dict_has [] k"
  by (simp add: dict_has_def)

lemma dict_get_Cons [simp]:
  "dict_get ((k', v) # kvs) k = (if k = k' then v else dict_get kvs k)"
  by (simp add: dict_get_def)

subsection \<open>Facts: Decimal digits\<close>

declare nat_digits.simps [simp del]

lemma char_of_digit [simp]:
  "char_of (48::nat) = CHR ''0''" "char_of (49::nat) = CHR ''1''" "char_of (50::nat) = CHR ''2''"
  "char_of (51::nat) = CHR ''3''" "char_of (52::nat) = CHR ''4''" "char_of (53::nat) = CHR ''5''"
  "char_of (54::nat) = CHR ''6''" "char_of (55::nat) = CHR ''7''" "char_of (56::nat) = CHR ''8''"
  "char_of (57::nat) = CHR ''9''"
  by (simp_all add: char_of_def bit_simps)

lemma nat_digits_small [simp]: "n < 10 \<Longrightarrow> nat_digits n = [char_of (48 + n)]"
  by (subst nat_digits.simps) simp

lemma nat_digits_step [model_eval]:
  "\<not> n < 10 \<Longrightarrow> nat_digits n = nat_digits (n div 10) @ [char_of (48 + n mod 10)]"
  by (subst nat_digits.simps) simp

lemma nat_digits_not_Nil [simp]: "nat_digits n \<noteq> []"
  by (cases "n < 10") (simp_all add: nat_digits_step)

subsection \<open>Facts: \<open>repr\<close> of a float\<close>

declare strip_zeros.simps [simp del]

subsection \<open>Facts: \<open>repr\<close> and \<open>str\<close> of a value\<close>

lemma py_str_JStr [simp]: "py_str (JStr s) = s"
  by (simp add: py_str_def)

lemma py_str_not_JStr: "\<forall>s. v \<noteq> JStr s \<Longrightarrow> py_str v = py_repr v"
  by (cases v) (simp_all add: py_str_def)

end
