(* ===== verification/Templates.thy ===== *)
theory Templates
  imports PyValue
begin

text \<open>
  The template registry \<open>TEMPLATE_MAP\<close> of \<open>src/src/main_generator.py\<close> (lines
  20--33): twelve string keys, each bound to a constructor function imported from
  \<open>manim_helpers._templates\<close>.  The constructors are outside the repository; the model
  names each by a constructor of the datatype \<open>template\<close> and leaves what it builds to
  the player's constructor parameter (theory \<open>Player\<close>).  Here: the registry as an
  association list in source order, the lookup \<open>TEMPLATE_MAP[k]\<close>, the membership test
  \<open>k not in TEMPLATE_MAP\<close> on an arbitrary JSON value (which hashes the value first).
  Its properties are those of the player that calls it (theory \<open>Player\<close>).
\<close>

datatype template =
    Manim_text_intro
  | Manim_text_outro
  | Manim_bullet_points
  | Manim_image_display
  | Manim_equation_display
  | Manim_step_by_step
  | Manim_graph_plot
  | Manim_highlight_text
  | Manim_transformation
  | Manim_definition_box
  | Manim_proof_steps
  | Manim_comparison

definition TEMPLATE_MAP :: "(string \<times> template) list" where
  "TEMPLATE_MAP =
     [(''text_intro'', Manim_text_intro),
      (''text_outro'', Manim_text_outro),
      (''bullet_points'', Manim_bullet_points),
      (''image_display'', Manim_image_display),
      (''equation_display'', Manim_equation_display),
      (''step_by_step'', Manim_step_by_step),
      (''graph_plot'', Manim_graph_plot),
      (''highlight_text'', Manim_highlight_text),
      (''transformation'', Manim_transformation),
      (''definition_box'', Manim_definition_box),
      (''proof_steps'', Manim_proof_steps),
      (''comparison'', Manim_comparison)]"

definition template_lookup :: "string \<Rightarrow> template option" where
  "template_lookup k = map_of TEMPLATE_MAP k"

text \<open>
  \<open>template_name not in TEMPLATE_MAP\<close> hashes \<open>template_name\<close> first: a list or
  dict raises \<open>TypeError: unhashable type\<close>; any other value that is not one of the
  twelve key strings is simply absent.
\<close>

definition template_in_map :: "jval \<Rightarrow> pyexc + template option" where
  "template_in_map tn =
     (if \<not> py_hashable tn
      then Inl (TypeError (''unhashable type: '' @ [CHR 0x27] @ py_type_name tn @ [CHR 0x27]))
      else (case tn of JStr s \<Rightarrow> Inr (template_lookup s) | _ \<Rightarrow> Inr None))"

text \<open>
  The key each template is registered under.  It is not code of the repository: the
  sample constructor of theory \<open>Player\<close> builds, as its object, this name.
\<close>

primrec template_key :: "template \<Rightarrow> string" where
  "template_key Manim_text_intro = ''text_intro''"
| "template_key Manim_text_outro = ''text_outro''"
| "template_key Manim_bullet_points = ''bullet_points''"
| "template_key Manim_image_display = ''image_display''"
| "template_key Manim_equation_display = ''equation_display''"
| "template_key Manim_step_by_step = ''step_by_step''"
| "template_key Manim_graph_plot = ''graph_plot''"
| "template_key Manim_highlight_text = ''highlight_text''"
| "template_key Manim_transformation = ''transformation''"
| "template_key Manim_definition_box = ''definition_box''"
| "template_key Manim_proof_steps = ''proof_steps''"
| "template_key Manim_comparison = ''comparison''"

end
