(* ===== verification/Normalizer.thy ===== *)
theory Normalizer
  imports PyValue
begin

text \<open>
  \<open>convert_content_to_string\<close> of \<open>src/src/main_generator.py\<close> (lines 36--58):
  the shape dispatch that turns a timeline entry's \<open>content\<close> into the argument of a
  template constructor.  Its result is what the Python function returns, a value of
  \<open>jval\<close>: every branch returns a string but the \<open>equation\<close> branch, which returns
  the dict's value as it is.  The lemmas give the result of each branch, the order in
  which overlapping shapes are tried, and that a list's lines can be read back.
\<close>

abbreviation newline :: char where
  "newline \<equiv> CHR 0x0A"

fun convert_content_to_string :: "jval \<Rightarrow> jval" where
  "convert_content_to_string (JStr s) = JStr s"
| "convert_content_to_string (JList xs) = JStr (py_join [newline] (map py_str xs))"
| "convert_content_to_string (JObj kvs) =
     (if dict_has kvs ''left'' \<and> dict_has kvs ''right''
      then JStr (py_str (dict_get kvs ''left'') @ ''|'' @ py_str (dict_get kvs ''right''))
      else if dict_has kvs ''equation''
      then dict_get kvs ''equation''
      else if dict_has kvs ''from'' \<and> dict_has kvs ''to''
      then JStr (py_str (dict_get kvs ''from'') @ '' -> '' @ py_str (dict_get kvs ''to''))
      else JStr (py_str (JObj kvs)))"
| "convert_content_to_string v = JStr (py_str v)"

text \<open>The content reaches the template as a string except through the \<open>equation\<close> branch.\<close>

definition equation_passthrough :: "jval \<Rightarrow> bool" where
  "equation_passthrough v \<longleftrightarrow>
     (case v of
        JObj kvs \<Rightarrow> \<not> (dict_has kvs ''left'' \<and> dict_has kvs ''right'') \<and> dict_has kvs ''equation''
      | _ \<Rightarrow> False)"

subsection \<open>Properties of the normalizer\<close>

text \<open>
  C8. Specification sections 4.2 and 8: a dict with the keys \<open>left\<close> and \<open>right\<close>
  becomes \<open>"{left}|{right}"\<close>, whatever other keys it has: this shape is tried first,
  before \<open>equation\<close> and \<open>from\<close>/\<open>to\<close> (line 45).
\<close>

theorem convert_left_right:
  assumes "dict_has kvs ''left''" and "dict_has kvs ''right''"
  shows "convert_content_to_string (JObj kvs) =
           JStr (py_str (dict_get kvs ''left'') @ ''|'' @ py_str (dict_get kvs ''right''))"
  using assms by simp

theorem convert_left_right_witness:
  "dict_has [(''equation'', JStr ''2x+3=7''), (''left'', JStr ''2x+3''), (''right'', JInt 7)] ''left'' \<and>
   dict_has [(''equation'', JStr ''2x+3=7''), (''left'', JStr ''2x+3''), (''right'', JInt 7)] ''right'' \<and>
   convert_content_to_string
     (JObj [(''equation'', JStr ''2x+3=7''), (''left'', JStr ''2x+3''), (''right'', JInt 7)]) =
   JStr ''2x+3|7''"
  using convert_left_right
      [of "[(''equation'', JStr ''2x+3=7''), (''left'', JStr ''2x+3''), (''right'', JInt 7)]"]
  by (simp add: py_str_def int_str_def)

text \<open>
  C9. Specification sections 4.2 and 8: a dict with \<open>from\<close> and \<open>to\<close>, and neither
  both \<open>left\<close> and \<open>right\<close> nor \<open>equation\<close>, becomes \<open>"{from} -> {to}"\<close>.
\<close>

theorem convert_from_to:
  assumes "\<not> (dict_has kvs ''left'' \<and> dict_has kvs ''right'')" and "\<not> dict_has kvs ''equation''"
    and "dict_has kvs ''from''" and "dict_has kvs ''to''"
  shows "convert_content_to_string (JObj kvs) =
           JStr (py_str (dict_get kvs ''from'') @ '' -> '' @ py_str (dict_get kvs ''to''))"
  using assms by auto

theorem convert_from_to_witness:
  "\<not> (dict_has [(''from'', JStr ''A''), (''to'', JStr ''B''), (''left'', JNull)] ''left'' \<and>
      dict_has [(''from'', JStr ''A''), (''to'', JStr ''B''), (''left'', JNull)] ''right'') \<and>
   \<not> dict_has [(''from'', JStr ''A''), (''to'', JStr ''B''), (''left'', JNull)] ''equation'' \<and>
   dict_has [(''from'', JStr ''A''), (''to'', JStr ''B''), (''left'', JNull)] ''from'' \<and>
   dict_has [(''from'', JStr ''A''), (''to'', JStr ''B''), (''left'', JNull)] ''to'' \<and>
   convert_content_to_string (JObj [(''from'', JStr ''A''), (''to'', JStr ''B''), (''left'', JNull)]) =
   JStr ''A -> B''"
  using convert_from_to [of "[(''from'', JStr ''A''), (''to'', JStr ''B''), (''left'', JNull)]"]
  by simp

text \<open>
  C10. Divergence from specification section 4.2, whose contract is a string: a dict with
  \<open>equation\<close> (and not both \<open>left\<close> and \<open>right\<close>) yields its \<open>equation\<close> value
  as it is (line 50), so a number, list or dict reaches the template constructor
  unconverted.
\<close>

theorem convert_equation_verbatim:
  assumes "\<not> (dict_has kvs ''left'' \<and> dict_has kvs ''right'')" and "dict_has kvs ''equation''"
  shows "convert_content_to_string (JObj kvs) = dict_get kvs ''equation''"
  using assms by auto

theorem convert_equation_verbatim_witness:
  "\<not> (dict_has [(''equation'', JInt 5), (''left'', JStr ''x'')] ''left'' \<and>
      dict_has [(''equation'', JInt 5), (''left'', JStr ''x'')] ''right'') \<and>
   dict_has [(''equation'', JInt 5), (''left'', JStr ''x'')] ''equation'' \<and>
   convert_content_to_string (JObj [(''equation'', JInt 5), (''left'', JStr ''x'')]) = JInt 5"
  using convert_equation_verbatim [of "[(''equation'', JInt 5), (''left'', JStr ''x'')]"]
  by simp

text \<open>
  C11. Every other shape gives a string: strings unchanged, lists, the three dict shapes
  and any other dict or scalar through \<open>str\<close>; only the pass-through of C10 can give
  something else.
\<close>

theorem convert_string_result:
  assumes "\<not> equation_passthrough v"
  shows "\<exists>s. convert_content_to_string v = JStr s"
  using assms by (cases v) (auto simp: equation_passthrough_def)

theorem convert_string_result_witness:
  "\<not> equation_passthrough (JObj [(''a'', JInt 1)]) \<and>
   convert_content_to_string (JObj [(''a'', JInt 1)]) =
     JStr (CHR ''{'' # [CHR 0x27] @ ''a'' @ [CHR 0x27] @ '': 1}'') \<and>
   (\<exists>s. convert_content_to_string (JObj [(''a'', JInt 1)]) = JStr s)"
  using convert_string_result [of "JObj [(''a'', JInt 1)]"]
  by (simp add: equation_passthrough_def py_str_def py_repr_str_def repr_char_def
      py_printable_def int_str_def Let_def)

text \<open>
  C12. A list becomes its items' \<open>str\<close> joined by newlines (line 42); when no item's
  \<open>str\<close> holds a newline, splitting the result at newlines gives the items back.
\<close>

theorem convert_list_roundtrip:
  assumes "convert_content_to_string (JList xs) = JStr s"
    and "xs \<noteq> []" and "\<forall>x \<in> set xs. newline \<notin> set (py_str x)"
  shows "py_split [newline] s = map py_str xs"
proof -
  have "\<forall>y \<in> set (map py_str xs). split_safe [newline] y"
    using assms(3) by simp
  moreover have "s = py_join [newline] (map py_str xs)"
    using assms(1) by simp
  ultimately show ?thesis
    using assms(2) by (simp add: py_split_py_join)
qed

theorem convert_list_roundtrip_witness:
  "convert_content_to_string (JList [JStr ''step 1'', JInt 2]) = JStr (''step 1'' @ [newline] @ ''2'') \<and>
   [JStr ''step 1'', JInt 2] \<noteq> [] \<and>
   newline \<notin> set (py_str (JStr ''step 1'')) \<and> newline \<notin> set (py_str (JInt 2)) \<and>
   py_split [newline] (''step 1'' @ [newline] @ ''2'') = [''step 1'', ''2'']"
proof -
  have conv: "convert_content_to_string (JList [JStr ''step 1'', JInt 2]) = JStr (''step 1'' @ [newline] @ ''2'')"
    by (simp add: py_str_def int_str_def)
  have nl: "\<forall>x \<in> set [JStr ''step 1'', JInt 2]. newline \<notin> set (py_str x)"
    by (simp add: py_str_def int_str_def)
  show ?thesis
    using convert_list_roundtrip [OF conv _ nl] conv nl by (simp add: py_str_def int_str_def)
qed

end
