(* ===== verification/PathLib.thy ===== *)
theory PathLib
  imports Prelude
begin

text \<open>
  The part of Python's \<open>pathlib\<close> the player uses on POSIX systems: the string a
  \<open>PurePosixPath\<close> prints, \<open>str(Path(p))\<close>, and the joining operator
  \<open>Path(a) / b\<close>.  Printing normalises: repeated slashes collapse, \<open>.\<close> components
  and a trailing slash disappear, exactly two leading slashes are kept (POSIX leaves
  their meaning to the system), \<open>..\<close> is kept, and the empty path prints as \<open>.\<close>.
\<close>

abbreviation slash :: char where
  "slash \<equiv> CHR ''/''"

text \<open>The root of a path: \<open>posixpath.splitroot\<close>.\<close>

definition path_root :: "string \<Rightarrow> string" where
  "path_root p =
     (if take 1 p \<noteq> [slash] then []
      else if take 2 p = [slash, slash] \<and> take 3 p \<noteq> [slash, slash, slash] then [slash, slash]
      else [slash])"

text \<open>The components after the root, without empty and \<open>.\<close> components.\<close>

definition path_parts :: "string \<Rightarrow> string list" where
  "path_parts p = filter (\<lambda>x. x \<noteq> [] \<and> x \<noteq> ''.'') (py_split [slash] p)"

definition path_str :: "string \<Rightarrow> string" where
  "path_str p =
     (if path_root p = [] \<and> path_parts p = [] then ''.''
      else path_root p @ py_join [slash] (path_parts p))"

text \<open>\<open>posixpath.join(a, b)\<close>, which \<open>Path(a) / b\<close> parses.\<close>

definition path_join :: "string \<Rightarrow> string \<Rightarrow> string" where
  "path_join a b =
     (if take 1 b = [slash] then b
      else if a = [] \<or> last a = slash then a @ b
      else a @ [slash] @ b)"

end
