(* ===== verification/Player.thy ===== *)
theory Player
  imports Templates Normalizer PathLib
begin

text \<open>
  The timeline player: class \<open>ManimSceneGenerator\<close> of \<open>src/src/main_generator.py\<close>
  (lines 61--121).  The scene's state is the record \<open>scene\<close>: the field
  \<open>current_objects\<close> of the class and the list of calls the method has made on the
  animation engine so far (\<open>self.play(FadeOut ...)\<close>, \<open>self.play(FadeIn ...)\<close>,
  \<open>self.wait\<close>) and on \<open>print\<close>, in order.  The engine is not modelled beyond these
  calls.  A template constructor is a parameter \<open>mk\<close> of type \<open>'obj constructor\<close>:
  \<open>mk t content timestamp\<close> is \<open>Inr obj\<close> when \<open>TEMPLATE_MAP[name](content,
  timestamp)\<close> returns \<open>obj\<close> and \<open>Inl msg\<close> when it raises an exception whose
  \<open>str\<close> is \<open>msg\<close>.  A Python exception that escapes \<open>construct\<close> is \<open>Inl (e, s)\<close>
  with \<open>s\<close> the scene as it was when it was raised: the calls made before stay made.
\<close>

datatype 'obj effect =
    FadeOut "'obj list" real
  | FadeIn 'obj real
  | Wait real
  | Print string

record 'obj scene =
  current_objects :: "'obj list"
  effects :: "'obj effect list"

record 'obj generator = "'obj scene" +
  json_path :: string
  template_data :: jval

type_synonym 'obj constructor = "template \<Rightarrow> jval \<Rightarrow> jval \<Rightarrow> string + 'obj"

definition emit :: "'obj effect \<Rightarrow> ('obj, 'z) scene_scheme \<Rightarrow> ('obj, 'z) scene_scheme" where
  "emit e s = s\<lparr>effects := effects s @ [e]\<rparr>"

subsection \<open>Timing of one entry (lines 110--111)\<close>

definition fade_in_time :: "real \<Rightarrow> real" where
  "fade_in_time duration = min 1 (duration * 3 / 10)"

definition wait_time :: "real \<Rightarrow> real" where
  "wait_time duration = max 0 (duration - fade_in_time duration)"

subsection \<open>One entry of the loop (lines 81--118)\<close>

text \<open>Lines 106--118: replace what is on screen by the new object.\<close>

definition show_object :: "real \<Rightarrow> 'obj \<Rightarrow> ('obj, 'z) scene_scheme \<Rightarrow> ('obj, 'z) scene_scheme" where
  "show_object duration manim_obj s =
     (let s1 = (if current_objects s \<noteq> []
                then (emit (FadeOut (current_objects s) (1 / 2)) s)\<lparr>current_objects := []\<rparr>
                else s);
          s2 = emit (FadeIn manim_obj (fade_in_time duration)) s1;
          s3 = (if 0 < wait_time duration then emit (Wait (wait_time duration)) s2 else s2)
      in s3\<lparr>current_objects := [manim_obj]\<rparr>)"

definition warn_not_found :: "jval \<Rightarrow> string" where
  "warn_not_found template_name =
     ''Warning: Template '' @ [CHR 0x27] @ py_str template_name @ [CHR 0x27] @
     '' not found in TEMPLATE_MAP''"

definition error_creating :: "jval \<Rightarrow> string \<Rightarrow> string" where
  "error_creating template_name e =
     ''Error creating object for template '' @ [CHR 0x27] @ py_str template_name @ [CHR 0x27] @
     '': '' @ e"

definition construct_item ::
  "'obj constructor \<Rightarrow> ('obj, 'z) scene_scheme \<Rightarrow> jval \<Rightarrow> pyexc + ('obj, 'z) scene_scheme" where
  "construct_item mk s item =
     err_bind (py_get item ''templateName'' JNull) (\<lambda>template_name.
     err_bind (py_get item ''content'' JNull) (\<lambda>content.
     err_bind (py_get item ''startTime'' (JInt 0)) (\<lambda>start_time.
     err_bind (py_get item ''endTime'' (JInt 0)) (\<lambda>end_time.
     err_bind (py_get item ''timestamp'' start_time) (\<lambda>timestamp.
     err_bind (py_sub end_time start_time) (\<lambda>duration.
     if duration \<le> 0 then Inr s
     else err_bind (template_in_map template_name) (\<lambda>found.
       case found of
         None \<Rightarrow> Inr (emit (Print (warn_not_found template_name)) s)
       | Some template_func \<Rightarrow>
           (let content_str = convert_content_to_string content in
            case mk template_func content_str timestamp of
              Inl e \<Rightarrow> Inr (emit (Print (error_creating template_name e)) s)
            | Inr manim_obj \<Rightarrow> Inr (show_object duration manim_obj s)))))))))"

subsection \<open>The whole method (lines 80--121)\<close>

fun construct_loop ::
  "'obj constructor \<Rightarrow> ('obj, 'z) scene_scheme \<Rightarrow> jval list \<Rightarrow>
   (pyexc \<times> ('obj, 'z) scene_scheme) + ('obj, 'z) scene_scheme" where
  "construct_loop mk s [] = Inr s"
| "construct_loop mk s (item # items) =
     (case construct_item mk s item of
        Inl e \<Rightarrow> Inl (e, s)
      | Inr s' \<Rightarrow> construct_loop mk s' items)"

definition final_fade_out :: "('obj, 'z) scene_scheme \<Rightarrow> ('obj, 'z) scene_scheme" where
  "final_fade_out s =
     (if current_objects s \<noteq> [] then emit (FadeOut (current_objects s) (1 / 2)) s else s)"

definition construct ::
  "'obj constructor \<Rightarrow> jval \<Rightarrow> ('obj, 'z) scene_scheme \<Rightarrow>
   (pyexc \<times> ('obj, 'z) scene_scheme) + ('obj, 'z) scene_scheme" where
  "construct mk data s =
     (case py_iter data of
        Inl e \<Rightarrow> Inl (e, s)
      | Inr items \<Rightarrow>
          (case construct_loop mk s items of
             Inl r \<Rightarrow> Inl r
           | Inr s' \<Rightarrow> Inr (final_fade_out s')))"

subsection \<open>Construction of the scene (lines 63--78)\<close>

text \<open>
  The file system is a map from normalised paths (as \<open>str(Path(p))\<close> prints them,
  theory \<open>PathLib\<close>) to the JSON document stored there (\<open>None\<close>: no such file);
  \<open>module_dir\<close> is \<open>str(Path(__file__).parent)\<close>.  A file that exists but does not
  hold valid JSON, and a directory, are not modelled.  Line 66 joins with \<open>Path\<close>'s
  \<open>/\<close> and line 67 stores \<open>str\<close> of the result; a path given as an argument is
  stored as it is.  Line 73 parses the stored string again, and line 75 prints the
  parsed path.
\<close>

definition default_json_path :: "string \<Rightarrow> string" where
  "default_json_path module_dir =
     path_str (path_join (path_join module_dir ''output'') ''example_manim_json.json'')"

definition load_json :: "(string \<Rightarrow> jval option) \<Rightarrow> string \<Rightarrow> pyexc + jval" where
  "load_json fs stored_path =
     (let path = path_str stored_path in
      case fs path of
        None \<Rightarrow> Inl (FileNotFoundError (''JSON file not found: '' @ path))
      | Some v \<Rightarrow> Inr v)"

definition generator_init ::
  "(string \<Rightarrow> jval option) \<Rightarrow> string \<Rightarrow> string option \<Rightarrow> pyexc + 'obj generator" where
  "generator_init fs module_dir json_path_arg =
     (let path = (case json_path_arg of None \<Rightarrow> default_json_path module_dir | Some p \<Rightarrow> p)
      in err_bind (load_json fs path) (\<lambda>data.
           Inr \<lparr>current_objects = [], effects = [], json_path = path, template_data = data\<rparr>))"

definition render ::
  "(string \<Rightarrow> jval option) \<Rightarrow> string \<Rightarrow> string option \<Rightarrow> 'obj constructor \<Rightarrow>
   (pyexc \<times> 'obj effect list) + 'obj effect list" where
  "render fs module_dir json_path_arg mk =
     (case generator_init fs module_dir json_path_arg of
        Inl e \<Rightarrow> Inl (e, [])
      | Inr g \<Rightarrow>
          (case construct mk (template_data g) g of
             Inl (e, s) \<Rightarrow> Inl (e, effects s)
           | Inr s \<Rightarrow> Inr (effects s)))"

subsection \<open>What an entry does, independently of the screen\<close>

text \<open>
  Steps 1--4 of the loop body read only the entry; the scene is touched from step 5
  on.  \<open>item_outcome\<close> is the decision the body takes for an entry, and
  \<open>apply_outcome\<close> what it then does to the scene; \<open>construct_item_outcome\<close>
  shows that the body is their composition, so an entry's fate never depends on what
  is on screen.
\<close>

datatype 'obj outcome =
    Skip
  | NotFound jval
  | CtorFailed jval string
  | Shown 'obj real

definition item_outcome :: "'obj constructor \<Rightarrow> jval \<Rightarrow> pyexc + 'obj outcome" where
  "item_outcome mk item =
     err_bind (py_get item ''templateName'' JNull) (\<lambda>template_name.
     err_bind (py_get item ''content'' JNull) (\<lambda>content.
     err_bind (py_get item ''startTime'' (JInt 0)) (\<lambda>start_time.
     err_bind (py_get item ''endTime'' (JInt 0)) (\<lambda>end_time.
     err_bind (py_get item ''timestamp'' start_time) (\<lambda>timestamp.
     err_bind (py_sub end_time start_time) (\<lambda>duration.
     if duration \<le> 0 then Inr Skip
     else err_bind (template_in_map template_name) (\<lambda>found.
       case found of
         None \<Rightarrow> Inr (NotFound template_name)
       | Some template_func \<Rightarrow>
           (case mk template_func (convert_content_to_string content) timestamp of
              Inl e \<Rightarrow> Inr (CtorFailed template_name e)
            | Inr manim_obj \<Rightarrow> Inr (Shown manim_obj duration)))))))))"

fun apply_outcome :: "'obj outcome \<Rightarrow> ('obj, 'z) scene_scheme \<Rightarrow> ('obj, 'z) scene_scheme" where
  "apply_outcome Skip s = s"
| "apply_outcome (NotFound n) s = emit (Print (warn_not_found n)) s"
| "apply_outcome (CtorFailed n e) s = emit (Print (error_creating n e)) s"
| "apply_outcome (Shown obj d) s = show_object d obj s"

subsection \<open>The screen slot: the abstract machine the effects must follow\<close>

text \<open>
  Section 4.3 of the specification: one slot, empty or occupied by one object.  An
  object fades in only into the empty slot, a fade-out removes exactly the object in
  the slot, and a hold or a message leaves the slot as it is; every transition takes a
  positive time.  \<open>slot_run a es b\<close>: the effects \<open>es\<close> take the slot from
  \<open>a\<close> to \<open>b\<close>.
\<close>

inductive slot_step :: "'obj option \<Rightarrow> 'obj effect \<Rightarrow> 'obj option \<Rightarrow> bool" where
  fade_in: "0 < t \<Longrightarrow> slot_step None (FadeIn obj t) (Some obj)"
| fade_out: "0 < t \<Longrightarrow> slot_step (Some obj) (FadeOut [obj] t) None"
| hold: "0 < t \<Longrightarrow> slot_step sl (Wait t) sl"
| say: "slot_step sl (Print msg) sl"

inductive slot_run :: "'obj option \<Rightarrow> 'obj effect list \<Rightarrow> 'obj option \<Rightarrow> bool" where
  run_nil: "slot_run sl [] sl"
| run_cons: "slot_step sl e sl' \<Longrightarrow> slot_run sl' es sl'' \<Longrightarrow> slot_run sl (e # es) sl''"

code_pred slot_step .

code_pred slot_run .

text \<open>The slot a list of on-screen objects stands for, and the class's own invariant.\<close>

definition slot_of :: "'obj list \<Rightarrow> 'obj option" where
  "slot_of objs = (case objs of [obj] \<Rightarrow> Some obj | _ \<Rightarrow> None)"

definition one_slot :: "('obj, 'z) scene_scheme \<Rightarrow> bool" where
  "one_slot s \<longleftrightarrow> length (current_objects s) \<le> 1"

definition scene_inv :: "('obj, 'z) scene_scheme \<Rightarrow> bool" where
  "scene_inv s \<longleftrightarrow> one_slot s \<and> slot_run None (effects s) (slot_of (current_objects s))"

text \<open>
  The scenes the loop can reach: from a fresh scene (nothing on screen, nothing played),
  one entry at a time.
\<close>

inductive player_reach :: "'obj constructor \<Rightarrow> ('obj, 'z) scene_scheme \<Rightarrow> bool" for mk where
  start: "current_objects s = [] \<Longrightarrow> effects s = [] \<Longrightarrow> player_reach mk s"
| step: "player_reach mk s \<Longrightarrow> construct_item mk s item = Inr s' \<Longrightarrow> player_reach mk s'"

subsection \<open>Playback order\<close>

text \<open>
  Observations for the order of playback (specification section 3: the order of the
  array is the order of playback, nothing is sorted by time): the objects faded in by a
  list of calls, and the object an entry puts on screen, if it renders.
\<close>

fun faded_in :: "'obj effect list \<Rightarrow> 'obj list" where
  "faded_in [] = []"
| "faded_in (FadeIn obj t # effs) = obj # faded_in effs"
| "faded_in (_ # effs) = faded_in effs"

definition shown_object :: "'obj constructor \<Rightarrow> jval \<Rightarrow> 'obj list" where
  "shown_object mk item = (case item_outcome mk item of Inr (Shown obj d) \<Rightarrow> [obj] | _ \<Rightarrow> [])"

subsection \<open>Sample inputs\<close>

text \<open>
  A constructor that never fails and builds, as its object, the key of the template it
  was called for; and the two entries of the specification's example timeline (an
  intro of five seconds, then a graph from second 5 to second 6.5).
\<close>

abbreviation demo_mk :: "string constructor" where
  "demo_mk \<equiv> \<lambda>t content timestamp. Inr (template_key t)"

abbreviation demo_entry1 :: jval where
  "demo_entry1 \<equiv> JObj [(''templateName'', JStr ''text_intro''), (''content'', JStr ''Hi''),
                        (''startTime'', JInt 0), (''endTime'', JInt 5)]"

abbreviation demo_entry2 :: jval where
  "demo_entry2 \<equiv> JObj [(''templateName'', JStr ''graph_plot''),
                        (''content'', JObj [(''equation'', JStr ''y=x'')]),
                        (''startTime'', JInt 5), (''endTime'', JFloat 65 (-1))]"

abbreviation fresh_scene :: "'obj scene" where
  "fresh_scene \<equiv> \<lparr>current_objects = [], effects = []\<rparr>"

subsection \<open>Basic facts on the scene\<close>

lemma emit_fields [simp]:
  "current_objects (emit e s) = current_objects s"
  "effects (emit e s) = effects s @ [e]"
  by (simp_all add: emit_def)

lemma show_object_fields:
  "current_objects (show_object d obj s) = [obj]"
  "effects (show_object d obj s) =
     effects s @ (if current_objects s \<noteq> [] then [FadeOut (current_objects s) (1 / 2)] else []) @
     [FadeIn obj (fade_in_time d)] @ (if 0 < wait_time d then [Wait (wait_time d)] else [])"
  by (simp_all add: show_object_def Let_def)

lemma fade_in_time_pos: "0 < d \<Longrightarrow> 0 < fade_in_time d"
  by (simp add: fade_in_time_def)

lemma fade_in_time_le: "fade_in_time d \<le> 1"
  by (simp add: fade_in_time_def)

lemma wait_time_nonneg: "0 \<le> wait_time d"
  by (simp add: wait_time_def)

lemma wait_time_pos: "0 < d \<Longrightarrow> 0 < wait_time d"
  by (simp add: wait_time_def fade_in_time_def)

lemmas timing_facts = fade_in_time_pos fade_in_time_le wait_time_nonneg wait_time_pos

lemma construct_item_outcome:
  "construct_item mk s item = map_sum id (\<lambda>out. apply_outcome out s) (item_outcome mk item)"
  unfolding construct_item_def item_outcome_def
  by (simp add: err_bind_def Let_def split: sum.split option.split)

lemma item_outcome_Shown_pos: "item_outcome mk item = Inr (Shown obj d) \<Longrightarrow> 0 < d"
  unfolding item_outcome_def
  by (auto simp: err_bind_def not_le split: if_split_asm option.split_asm sum.split_asm)

subsection \<open>The slot machine\<close>

inductive_simps slot_run_Nil: "slot_run a [] b"

inductive_simps slot_run_Cons: "slot_run a (e # es) b"

inductive_cases slot_step_FadeOutE: "slot_step a (FadeOut objs t) b"

lemma slot_run_append:
  "slot_run a xs b \<Longrightarrow> slot_run b ys c \<Longrightarrow> slot_run a (xs @ ys) c"
  by (induction rule: slot_run.induct) (auto intro: slot_run.intros)

lemma slot_run_single: "slot_step a e b \<Longrightarrow> slot_run a [e] b"
  by (auto intro: slot_run.intros)

lemmas slot_run_intros = slot_run.run_nil slot_run_single slot_step.intros slot_run_append

lemma slot_of_simps [simp]:
  "slot_of [] = None"
  "slot_of [obj] = Some obj"
  by (simp_all add: slot_of_def)

lemma one_slot_cases:
  assumes "one_slot s"
  obtains "current_objects s = []" | obj where "current_objects s = [obj]"
  using assms unfolding one_slot_def
  by (cases "current_objects s") auto

subsection \<open>One entry keeps the invariant\<close>

lemma show_object_run:
  assumes "one_slot s" and "0 < d"
  shows "\<exists>es. effects (show_object d obj s) = effects s @ es \<and>
           slot_run (slot_of (current_objects s)) es (Some obj)"
  using assms(1)
proof (cases rule: one_slot_cases)
  case 1
  then have "slot_run None [FadeIn obj (fade_in_time d), Wait (wait_time d)] (Some obj)"
    using assms(2) by (auto intro!: slot_run.intros slot_step.intros simp: timing_facts)
  with 1 assms(2) show ?thesis by (auto simp: show_object_fields timing_facts)
next
  case (2 p)
  then have "slot_run (Some p) [FadeOut [p] (1 / 2), FadeIn obj (fade_in_time d), Wait (wait_time d)]
               (Some obj)"
    using assms(2) by (auto intro!: slot_run.intros slot_step.intros simp: timing_facts)
  with 2 assms(2) show ?thesis by (auto simp: show_object_fields timing_facts)
qed

lemma apply_outcome_run:
  assumes "item_outcome mk item = Inr out" and "one_slot s"
  shows "one_slot (apply_outcome out s) \<and>
         (\<exists>es. effects (apply_outcome out s) = effects s @ es \<and>
              slot_run (slot_of (current_objects s)) es (slot_of (current_objects (apply_outcome out s))))"
proof (cases out)
  case (Shown obj d)
  then have "0 < d" using assms(1) by (auto intro: item_outcome_Shown_pos)
  then show ?thesis
    using Shown show_object_run [OF assms(2)]
    by (simp add: one_slot_def show_object_fields)
qed (use assms(2) in \<open>auto simp: one_slot_def intro: slot_run_intros\<close>)

lemma construct_item_inv:
  assumes "construct_item mk s item = Inr s'" and "scene_inv s"
  shows "scene_inv s' \<and> (\<exists>es. effects s' = effects s @ es)"
proof -
  obtain out where out: "item_outcome mk item = Inr out" and s': "s' = apply_outcome out s"
    using assms(1) by (cases "item_outcome mk item") (auto simp: construct_item_outcome)
  from assms(2) have "one_slot s" and run: "slot_run None (effects s) (slot_of (current_objects s))"
    by (simp_all add: scene_inv_def)
  from apply_outcome_run [OF out this(1)] obtain es where
    "one_slot s'" and "effects s' = effects s @ es"
    and "slot_run (slot_of (current_objects s)) es (slot_of (current_objects s'))"
    by (auto simp: s')
  with run show ?thesis by (auto simp: scene_inv_def intro: slot_run_append)
qed

lemma player_reach_inv: "player_reach mk s \<Longrightarrow> scene_inv s"
proof (induction rule: player_reach.induct)
  case (start s)
  then show ?case by (simp add: scene_inv_def one_slot_def slot_run_Nil)
next
  case (step s item s')
  then show ?case using construct_item_inv by blast
qed

lemma construct_loop_reach:
  "player_reach mk s \<Longrightarrow> construct_loop mk s items = Inr s' \<Longrightarrow> player_reach mk s'"
  by (induction items arbitrary: s)
    (auto split: sum.splits intro: player_reach.step)

lemma construct_loop_reach_err:
  "player_reach mk s \<Longrightarrow> construct_loop mk s items = Inl (e, s') \<Longrightarrow> player_reach mk s'"
  by (induction items arbitrary: s)
    (auto split: sum.splits intro: player_reach.step)

lemma final_fade_out_run:
  assumes "scene_inv s"
  shows "slot_run None (effects (final_fade_out s)) None"
proof -
  from assms have "one_slot s" and run: "slot_run None (effects s) (slot_of (current_objects s))"
    by (simp_all add: scene_inv_def)
  then show ?thesis
  proof (cases rule: one_slot_cases)
    case 1
    with run show ?thesis by (simp add: final_fade_out_def)
  next
    case (2 obj)
    have "slot_run (Some obj) [FadeOut [obj] (1 / 2)] None"
      by (rule slot_run_single, rule slot_step.fade_out) simp
    with 2 run show ?thesis by (auto simp: final_fade_out_def intro: slot_run_append)
  qed
qed

lemma construct_run_from_empty:
  assumes "current_objects s = []" and "effects s = []" and "construct mk data s = Inr s'"
  shows "slot_run None (effects s') None"
proof -
  from assms(3) obtain items s'' where "py_iter data = Inr items"
    and loop: "construct_loop mk s items = Inr s''" and s': "s' = final_fade_out s''"
    by (auto simp: construct_def split: sum.splits)
  have "player_reach mk s"
    using assms(1,2) by (rule player_reach.start)
  then have "player_reach mk s''" using loop by (rule construct_loop_reach)
  then have "scene_inv s''" by (rule player_reach_inv)
  then show ?thesis unfolding s' by (rule final_fade_out_run)
qed

subsection \<open>Playback order\<close>

lemma faded_in_append [simp]: "faded_in (xs @ ys) = faded_in xs @ faded_in ys"
  by (induction xs rule: faded_in.induct) simp_all

lemma apply_outcome_faded_in:
  "faded_in (effects (apply_outcome out s)) =
     faded_in (effects s) @ (case out of Shown obj d \<Rightarrow> [obj] | _ \<Rightarrow> [])"
  by (cases out) (simp_all add: show_object_fields)

lemma construct_item_faded_in:
  assumes "construct_item mk s item = Inr s'"
  shows "faded_in (effects s') = faded_in (effects s) @ shown_object mk item"
proof -
  obtain out where out: "item_outcome mk item = Inr out" and s': "s' = apply_outcome out s"
    using assms by (cases "item_outcome mk item") (auto simp: construct_item_outcome)
  show ?thesis
    by (cases out) (simp_all add: s' out shown_object_def show_object_fields)
qed

lemma construct_loop_faded_in:
  "construct_loop mk s items = Inr s' \<Longrightarrow>
   faded_in (effects s') = faded_in (effects s) @ concat (map (shown_object mk) items)"
  by (induction items arbitrary: s)
    (auto split: sum.splits dest!: construct_item_faded_in)

lemma construct_faded_in:
  assumes "py_iter data = Inr items" and "construct mk data s = Inr s'"
  shows "faded_in (effects s') = faded_in (effects s) @ concat (map (shown_object mk) items)"
  using assms construct_loop_faded_in [of mk s items]
  by (auto simp: construct_def final_fade_out_def split: sum.splits)

subsection \<open>Evaluation on the sample inputs\<close>

declare py_get_def [model_eval] py_sub_def [model_eval] dec_val_def [model_eval]
  template_in_map_def [model_eval] template_lookup_def [model_eval] TEMPLATE_MAP_def [model_eval]
  item_outcome_def [model_eval] construct_item_def [model_eval] construct_def [model_eval]
  show_object_def [model_eval] final_fade_out_def [model_eval] fade_in_time_def [model_eval]
  wait_time_def [model_eval] warn_not_found_def [model_eval] error_creating_def [model_eval]
  path_str_def [model_eval] path_root_def [model_eval] path_parts_def [model_eval]
  py_split_def [model_eval]

lemma demo_outcomes:
  "item_outcome demo_mk demo_entry1 = Inr (Shown ''text_intro'' 5)"
  "item_outcome demo_mk demo_entry2 = Inr (Shown ''graph_plot'' (3 / 2))"
  by (simp_all add: model_eval)

lemma demo_construct:
  "construct demo_mk (JList [demo_entry1, demo_entry2]) fresh_scene =
   Inr \<lparr>current_objects = [''graph_plot''],
        effects = [FadeIn ''text_intro'' 1, Wait 4, FadeOut [''text_intro''] (1 / 2),
                   FadeIn ''graph_plot'' (9 / 20), Wait (21 / 20), FadeOut [''graph_plot''] (1 / 2)]\<rparr>"
  by (simp add: construct_item_outcome demo_outcomes model_eval)

subsection \<open>Properties of the player\<close>

text \<open>
  C1. Specification section 8: a timeline of two entries that both render plays exactly
  fade-in, hold, fade-out of the first object, then fade-in, hold and the final fade-out
  of the second, with the fade-in and hold times of lines 110--111.  The scene still
  lists the second object as on screen after its final fade-out (line 121 does not
  clear \<open>current_objects\<close>).
\<close>

theorem construct_two_entries:
  assumes "item_outcome mk i1 = Inr (Shown o1 d1)" and "item_outcome mk i2 = Inr (Shown o2 d2)"
  shows "construct mk (JList [i1, i2]) fresh_scene =
     Inr \<lparr>current_objects = [o2],
          effects = [FadeIn o1 (fade_in_time d1), Wait (wait_time d1), FadeOut [o1] (1 / 2),
                     FadeIn o2 (fade_in_time d2), Wait (wait_time d2), FadeOut [o2] (1 / 2)]\<rparr>"
proof -
  have "0 < d1" using assms(1) by (rule item_outcome_Shown_pos)
  moreover have "0 < d2" using assms(2) by (rule item_outcome_Shown_pos)
  ultimately show ?thesis
    using assms
    by (simp add: construct_def construct_item_outcome show_object_def final_fade_out_def
        Let_def wait_time_pos)
qed

theorem construct_two_entries_witness:
  "item_outcome demo_mk demo_entry1 = Inr (Shown ''text_intro'' 5) \<and>
   item_outcome demo_mk demo_entry2 = Inr (Shown ''graph_plot'' (3 / 2)) \<and>
   construct demo_mk (JList [demo_entry1, demo_entry2]) fresh_scene =
   Inr \<lparr>current_objects = [''graph_plot''],
        effects = [FadeIn ''text_intro'' 1, Wait 4, FadeOut [''text_intro''] (1 / 2),
                   FadeIn ''graph_plot'' (9 / 20), Wait (21 / 20), FadeOut [''graph_plot''] (1 / 2)]\<rparr>"
  using construct_two_entries [OF demo_outcomes] demo_outcomes
  by (simp add: fade_in_time_def wait_time_def)

text \<open>
  C2. Refinement of the slot machine of specification section 4.3: whatever the
  timeline, when \<open>construct\<close> returns on a fresh scene, the calls it made on the
  engine form a run of the slot machine from the empty slot back to the empty slot:
  every fade-in goes into an empty slot, every fade-out removes exactly the object on
  screen, every transition and hold takes positive time, and the screen ends empty.
\<close>

theorem construct_screen_protocol:
  assumes "construct mk data fresh_scene = Inr s"
  shows "slot_run None (effects s) None"
  using construct_run_from_empty [of fresh_scene] assms by simp

theorem construct_screen_protocol_witness:
  "construct demo_mk (JList [demo_entry1, demo_entry2]) fresh_scene =
   Inr \<lparr>current_objects = [''graph_plot''],
        effects = [FadeIn ''text_intro'' 1, Wait 4, FadeOut [''text_intro''] (1 / 2),
                   FadeIn ''graph_plot'' (9 / 20), Wait (21 / 20), FadeOut [''graph_plot''] (1 / 2)]\<rparr> \<and>
   slot_run None [FadeIn ''text_intro'' 1, Wait 4, FadeOut [''text_intro''] (1 / 2),
                  FadeIn ''graph_plot'' (9 / 20), Wait (21 / 20), FadeOut [''graph_plot''] (1 / 2)] None"
  using construct_screen_protocol [OF demo_construct] demo_construct by simp

text \<open>
  C3. Invariant of the loop, by rule induction over the scenes it reaches: at most one
  object is on screen, and the calls made so far are a run of the slot machine from the
  empty slot to the slot that holds the object on screen.
\<close>

theorem player_reach_scene_inv:
  assumes "player_reach mk s"
  shows "length (current_objects s) \<le> 1 \<and>
         slot_run None (effects s) (slot_of (current_objects s))"
  using player_reach_inv [OF assms] by (simp add: scene_inv_def one_slot_def)

theorem player_reach_scene_inv_witness:
  "player_reach demo_mk (show_object 5 ''text_intro'' (fresh_scene :: string scene)) \<and>
   length [''text_intro''] \<le> 1 \<and>
   slot_run None [FadeIn ''text_intro'' 1, Wait 4] (Some ''text_intro'')"
proof -
  have start: "player_reach demo_mk (fresh_scene :: string scene)"
    by (rule player_reach.start) simp_all
  have "construct_item demo_mk fresh_scene demo_entry1 =
          Inr (show_object 5 ''text_intro'' (fresh_scene :: string scene))"
    by (simp add: construct_item_outcome demo_outcomes)
  with start have reach: "player_reach demo_mk (show_object 5 ''text_intro'' (fresh_scene :: string scene))"
    by (rule player_reach.step)
  show ?thesis
    using reach player_reach_scene_inv [OF reach]
    by (simp add: show_object_fields fade_in_time_def wait_time_def)
qed

text \<open>
  C4. Specification section 8: an entry whose \<open>endTime - startTime\<close> is not
  positive produces no call at all and leaves the scene as it is (line 89).
\<close>

theorem construct_item_skip:
  assumes "py_get item ''startTime'' (JInt 0) = Inr st" and "py_get item ''endTime'' (JInt 0) = Inr et"
    and "py_sub et st = Inr d" and "d \<le> 0"
  shows "construct_item mk s item = Inr s"
  using assms by (cases item) (simp_all add: construct_item_def py_get_def)

theorem construct_item_skip_witness:
  "py_get (JObj [(''templateName'', JStr ''text_intro''), (''startTime'', JInt 4), (''endTime'', JFloat 35 (-1))])
     ''startTime'' (JInt 0) = Inr (JInt 4) \<and>
   py_get (JObj [(''templateName'', JStr ''text_intro''), (''startTime'', JInt 4), (''endTime'', JFloat 35 (-1))])
     ''endTime'' (JInt 0) = Inr (JFloat 35 (-1)) \<and>
   py_sub (JFloat 35 (-1)) (JInt 4) = Inr (- 1 / 2) \<and> (- 1 / 2 :: real) \<le> 0 \<and>
   construct_item demo_mk (fresh_scene :: string scene)
     (JObj [(''templateName'', JStr ''text_intro''), (''startTime'', JInt 4), (''endTime'', JFloat 35 (-1))]) =
   Inr fresh_scene"
proof -
  have "py_sub (JFloat 35 (-1)) (JInt 4) = Inr (- 1 / 2)"
    by (simp add: py_sub_def dec_val_def)
  then show ?thesis
    using construct_item_skip [of "JObj [(''templateName'', JStr ''text_intro''), (''startTime'', JInt 4),
        (''endTime'', JFloat 35 (-1))]" "JInt 4" "JFloat 35 (-1)" "- 1 / 2" demo_mk fresh_scene]
    by (simp add: py_get_def)
qed

text \<open>
  C5. Specification sections 7 and 8: an entry with a positive duration whose
  \<open>templateName\<close> is a string that is not a key of \<open>TEMPLATE_MAP\<close> does not
  raise: it prints the warning of line 93 and the loop goes on with the next entries
  from the scene as it was, plus that message.
\<close>

theorem unknown_template_continues:
  assumes "py_get item ''templateName'' JNull = Inr (JStr n)" and "template_lookup n = None"
    and "py_get item ''startTime'' (JInt 0) = Inr st" and "py_get item ''endTime'' (JInt 0) = Inr et"
    and "py_sub et st = Inr d" and "0 < d"
  shows "construct_loop mk s (item # items) =
           construct_loop mk (emit (Print (warn_not_found (JStr n))) s) items"
  using assms
  by (cases item) (auto simp: construct_item_def py_get_def template_in_map_def not_le)

theorem unknown_template_continues_witness:
  "py_get (JObj [(''templateName'', JStr ''intro''), (''startTime'', JInt 1), (''endTime'', JInt 2)])
     ''templateName'' JNull = Inr (JStr ''intro'') \<and>
   template_lookup ''intro'' = None \<and>
   py_get (JObj [(''templateName'', JStr ''intro''), (''startTime'', JInt 1), (''endTime'', JInt 2)])
     ''startTime'' (JInt 0) = Inr (JInt 1) \<and>
   py_get (JObj [(''templateName'', JStr ''intro''), (''startTime'', JInt 1), (''endTime'', JInt 2)])
     ''endTime'' (JInt 0) = Inr (JInt 2) \<and>
   py_sub (JInt 2) (JInt 1) = Inr 1 \<and> (0::real) < 1 \<and>
   construct_loop demo_mk fresh_scene
     [JObj [(''templateName'', JStr ''intro''), (''startTime'', JInt 1), (''endTime'', JInt 2)],
      demo_entry1] =
   construct_loop demo_mk (emit (Print (warn_not_found (JStr ''intro''))) fresh_scene) [demo_entry1]"
  using unknown_template_continues
      [of "JObj [(''templateName'', JStr ''intro''), (''startTime'', JInt 1), (''endTime'', JInt 2)]"
        "''intro''" "JInt 1" "JInt 2" 1 demo_mk fresh_scene "[demo_entry1]"]
  by (simp add: py_get_def py_sub_def template_lookup_def TEMPLATE_MAP_def)

text \<open>
  C6. Specification section 7: when the template constructor raises, the entry prints
  the message of line 103 and changes nothing else: what is on screen stays on screen
  and no engine call is made.
\<close>

theorem ctor_failure_keeps_screen:
  assumes "py_get item ''templateName'' JNull = Inr (JStr n)" and "template_lookup n = Some t"
    and "py_get item ''content'' JNull = Inr c" and "py_get item ''timestamp'' st = Inr ts"
    and "py_get item ''startTime'' (JInt 0) = Inr st" and "py_get item ''endTime'' (JInt 0) = Inr et"
    and "py_sub et st = Inr d" and "0 < d"
    and "mk t (convert_content_to_string c) ts = Inl e"
  shows "construct_item mk s item = Inr (emit (Print (error_creating (JStr n) e)) s)"
  using assms
  by (cases item) (auto simp: construct_item_def py_get_def template_in_map_def not_le)

theorem ctor_failure_keeps_screen_witness:
  "py_get demo_entry1 ''templateName'' JNull = Inr (JStr ''text_intro'') \<and>
   template_lookup ''text_intro'' = Some Manim_text_intro \<and>
   py_get demo_entry1 ''content'' JNull = Inr (JStr ''Hi'') \<and>
   py_get demo_entry1 ''timestamp'' (JInt 0) = Inr (JInt 0) \<and>
   py_get demo_entry1 ''startTime'' (JInt 0) = Inr (JInt 0) \<and>
   py_get demo_entry1 ''endTime'' (JInt 0) = Inr (JInt 5) \<and>
   py_sub (JInt 5) (JInt 0) = Inr 5 \<and> (0::real) < 5 \<and>
   (\<lambda>t c ts. Inl ''no font'' :: string + nat) Manim_text_intro
      (convert_content_to_string (JStr ''Hi'')) (JInt 0) = Inl ''no font'' \<and>
   construct_item (\<lambda>t c ts. Inl ''no font'') \<lparr>current_objects = [7::nat], effects = []\<rparr> demo_entry1 =
     Inr (emit (Print (error_creating (JStr ''text_intro'') ''no font''))
            \<lparr>current_objects = [7::nat], effects = []\<rparr>)"
  using ctor_failure_keeps_screen [of demo_entry1 "''text_intro''" Manim_text_intro "JStr ''Hi''"
      "JInt 0" "JInt 0" "JInt 5" 5 "\<lambda>t c ts. Inl ''no font''" "''no font''"
      "\<lparr>current_objects = [7::nat], effects = []\<rparr>"]
  by (simp add: py_get_def py_sub_def template_lookup_def TEMPLATE_MAP_def)

text \<open>
  C7. A gap of the specification, which says an unrecognized \<open>templateName\<close> never
  raises: when it is a list or a dict and the entry's duration is positive, the test
  \<open>template_name not in TEMPLATE_MAP\<close> of line 92 hashes it and raises
  \<open>TypeError\<close>, which ends \<open>construct\<close> with the entries after it unplayed.
\<close>

theorem unhashable_template_raises:
  assumes "py_get item ''templateName'' JNull = Inr tn" and "\<not> py_hashable tn"
    and "py_get item ''startTime'' (JInt 0) = Inr st" and "py_get item ''endTime'' (JInt 0) = Inr et"
    and "py_sub et st = Inr d" and "0 < d"
  shows "construct_loop mk s (item # items) =
           Inl (TypeError (''unhashable type: '' @ [CHR 0x27] @ py_type_name tn @ [CHR 0x27]), s)"
  using assms
  by (cases item) (auto simp: construct_item_def py_get_def template_in_map_def not_le)

theorem unhashable_template_raises_witness:
  "py_get (JObj [(''templateName'', JList [JStr ''text_intro'']), (''endTime'', JInt 2)])
     ''templateName'' JNull = Inr (JList [JStr ''text_intro'']) \<and>
   \<not> py_hashable (JList [JStr ''text_intro'']) \<and>
   py_get (JObj [(''templateName'', JList [JStr ''text_intro'']), (''endTime'', JInt 2)])
     ''startTime'' (JInt 0) = Inr (JInt 0) \<and>
   py_get (JObj [(''templateName'', JList [JStr ''text_intro'']), (''endTime'', JInt 2)])
     ''endTime'' (JInt 0) = Inr (JInt 2) \<and>
   py_sub (JInt 2) (JInt 0) = Inr 2 \<and> (0::real) < 2 \<and>
   construct_loop demo_mk fresh_scene
     [JObj [(''templateName'', JList [JStr ''text_intro'']), (''endTime'', JInt 2)], demo_entry1] =
   Inl (TypeError (''unhashable type: '' @ [CHR 0x27] @ ''list'' @ [CHR 0x27]), fresh_scene)"
  using unhashable_template_raises
      [of "JObj [(''templateName'', JList [JStr ''text_intro'']), (''endTime'', JInt 2)]"
        "JList [JStr ''text_intro'']" "JInt 0" "JInt 2" 2 demo_mk fresh_scene "[demo_entry1]"]
  by (simp add: py_get_def py_sub_def)

text \<open>
  C20. A gap of the specification, whose error taxonomy makes every failure but a
  missing file recoverable: an entry whose \<open>startTime\<close> or \<open>endTime\<close> is not a
  number (a string, \<open>null\<close>, a list) makes the subtraction of line 87 raise
  \<open>TypeError\<close>, which ends \<open>construct\<close>.
\<close>

theorem non_numeric_time_raises:
  assumes "py_get item ''startTime'' (JInt 0) = Inr st" and "py_get item ''endTime'' (JInt 0) = Inr et"
    and "py_num st = None \<or> py_num et = None"
  shows "construct_loop mk s (item # items) =
           Inl (TypeError (''unsupported operand type(s) for -: '' @ [CHR 0x27] @ py_type_name et @
                  ''' and '' @ [CHR 0x27] @ py_type_name st @ [CHR 0x27]), s)"
  using assms
  by (cases item) (auto simp: construct_item_def py_get_def py_sub_def split: option.split)

theorem non_numeric_time_raises_witness:
  "py_get (JObj [(''templateName'', JStr ''text_intro''), (''startTime'', JStr ''0:05'')]) ''startTime'' (JInt 0) =
     Inr (JStr ''0:05'') \<and>
   py_get (JObj [(''templateName'', JStr ''text_intro''), (''startTime'', JStr ''0:05'')]) ''endTime'' (JInt 0) =
     Inr (JInt 0) \<and>
   (py_num (JStr ''0:05'') = None \<or> py_num (JInt 0) = None) \<and>
   construct_loop demo_mk fresh_scene
     [JObj [(''templateName'', JStr ''text_intro''), (''startTime'', JStr ''0:05'')], demo_entry1] =
   Inl (TypeError (''unsupported operand type(s) for -: '' @ [CHR 0x27] @ ''int'' @
          ''' and '' @ [CHR 0x27] @ ''str'' @ [CHR 0x27]), fresh_scene)"
  using non_numeric_time_raises
      [of "JObj [(''templateName'', JStr ''text_intro''), (''startTime'', JStr ''0:05'')]"
        "JStr ''0:05''" "JInt 0" demo_mk fresh_scene "[demo_entry1]"]
  by (simp add: py_get_def)

end
