(* ===== verification/Content.thy ===== *)
theory Content
  imports PyValue
begin

text \<open>
  Document ingestion: class \<open>Content\<close> of \<open>src/src/ingestion/content.py\<close>.  The
  constructor sets \<open>allText\<close> and \<open>noOfSep\<close> and calls \<open>_ingest\<close>, which asks
  the external partitioner \<open>unstructured.partition.auto.partition\<close> for the document's
  elements, joins their non-empty \<open>text\<close> fields with a blank line, records the number
  of elements and prints a warning when the joined text is blank.  The partitioner is a
  parameter: \<open>partition_fn path\<close> is \<open>Inr els\<close> for the elements it returns and
  \<open>Inl e\<close> for an exception \<open>e\<close>, which escapes the constructor.  What the
  constructor prints is returned as the list of printed lines.
\<close>

record element =
  el_text :: string

record content =
  allText :: string
  noOfSep :: nat

text \<open>\<open>str.isspace\<close> on code points below 256, and \<open>str.strip()\<close>.\<close>

definition py_isspace :: "char \<Rightarrow> bool" where
  "py_isspace c \<longleftrightarrow>
     (let n = (of_char c :: nat) in (9 \<le> n \<and> n \<le> 13) \<or> (28 \<le> n \<and> n \<le> 32) \<or> n = 133 \<or> n = 160)"

definition py_strip :: "string \<Rightarrow> string" where
  "py_strip s = rev (dropWhile py_isspace (rev (dropWhile py_isspace s)))"

abbreviation blank_line_sep :: string where
  "blank_line_sep \<equiv> [CHR 0x0A, CHR 0x0A]"

definition warn_no_text :: string where
  "warn_no_text = ''[WARN] No extractable text found.''"

definition content_ingest ::
  "(string \<Rightarrow> 'e + element list) \<Rightarrow> string \<Rightarrow> content \<Rightarrow> 'e + content \<times> string list" where
  "content_ingest partition_fn file_path self =
     err_bind (partition_fn file_path) (\<lambda>elements.
       let self' = self\<lparr>allText := py_join blank_line_sep
                                     (map el_text (filter (\<lambda>el. el_text el \<noteq> []) elements)),
                        noOfSep := length elements\<rparr>
       in Inr (self', if py_strip (allText self') = [] then [warn_no_text] else []))"

definition content_init ::
  "(string \<Rightarrow> 'e + element list) \<Rightarrow> string \<Rightarrow> 'e + content \<times> string list" where
  "content_init partition_fn file_path =
     content_ingest partition_fn file_path \<lparr>allText = [], noOfSep = 0\<rparr>"

subsection \<open>Facts\<close>

lemma py_strip_Nil_iff: "py_strip s = [] \<longleftrightarrow> (\<forall>c \<in> set s. py_isspace c)"
proof -
  have "(\<forall>c \<in> set (dropWhile py_isspace s). py_isspace c) \<longleftrightarrow> (\<forall>c \<in> set s. py_isspace c)"
    by (metis (no_types) dropWhile_eq_Nil_conv dropWhile_idem)
  then show ?thesis
    by (simp add: py_strip_def dropWhile_eq_Nil_conv)
qed

lemma blank_line_sep_space: "\<forall>c \<in> set blank_line_sep. py_isspace c"
  by (simp add: py_isspace_def)

lemma content_init_Inr:
  assumes "partition_fn file_path = Inr els"
  shows "content_init partition_fn file_path =
           Inr (\<lparr>allText = py_join blank_line_sep (filter (\<lambda>t. t \<noteq> []) (map el_text els)),
                  noOfSep = length els\<rparr>,
                if \<forall>t \<in> set (map el_text els). \<forall>c \<in> set t. py_isspace c then [warn_no_text] else [])"
proof -
  have "filter (\<lambda>t. t \<noteq> []) (map el_text els) = map el_text (filter (\<lambda>el. el_text el \<noteq> []) els)"
    by (simp add: filter_map comp_def)
  moreover have "py_strip (py_join blank_line_sep (filter (\<lambda>t. t \<noteq> []) (map el_text els))) = [] \<longleftrightarrow>
      (\<forall>t \<in> set (map el_text els). \<forall>c \<in> set t. py_isspace c)"
    by (auto simp: py_strip_Nil_iff py_join_all_iff [OF blank_line_sep_space])
  ultimately show ?thesis
    using assms by (simp add: content_init_def content_ingest_def)
qed

subsection \<open>Sample input\<close>

lemma spec_example_ingest:
  "content_init (\<lambda>p. Inr [\<lparr>el_text = ''''\<rparr>, \<lparr>el_text = ''Hello''\<rparr>, \<lparr>el_text = ''''\<rparr>, \<lparr>el_text = ''World''\<rparr>])
     ''doc.pdf'' =
   Inr (\<lparr>allText = ''Hello'' @ blank_line_sep @ ''World'', noOfSep = 4\<rparr>, [])"
  by (simp add: content_init_Inr py_isspace_def)

subsection \<open>Properties of the ingester\<close>

text \<open>
  C13. Specification sections 4.1 and 8: \<open>allText\<close> is the non-empty element texts,
  in the partitioner's order, joined by a blank line, and \<open>noOfSep\<close> the number of
  all elements, empty ones included (lines 11--14).
\<close>

theorem ingest_joins_texts:
  assumes "partition_fn file_path = Inr els"
  shows "\<exists>out. content_init partition_fn file_path =
           Inr (\<lparr>allText = py_join blank_line_sep (filter (\<lambda>t. t \<noteq> []) (map el_text els)),
                 noOfSep = length els\<rparr>, out)"
  using assms by (simp add: content_init_def content_ingest_def filter_map comp_def)

theorem ingest_joins_texts_witness:
  "(\<lambda>p. Inr [\<lparr>el_text = ''''\<rparr>, \<lparr>el_text = ''Hello''\<rparr>, \<lparr>el_text = ''''\<rparr>, \<lparr>el_text = ''World''\<rparr>] ::
      string + element list) ''doc.pdf'' =
     Inr [\<lparr>el_text = ''''\<rparr>, \<lparr>el_text = ''Hello''\<rparr>, \<lparr>el_text = ''''\<rparr>, \<lparr>el_text = ''World''\<rparr>] \<and>
   py_join blank_line_sep (filter (\<lambda>t. t \<noteq> []) [[], ''Hello'', [], ''World'']) =
     ''Hello'' @ blank_line_sep @ ''World'' \<and>
   (\<exists>out. content_init
            (\<lambda>p. Inr [\<lparr>el_text = ''''\<rparr>, \<lparr>el_text = ''Hello''\<rparr>, \<lparr>el_text = ''''\<rparr>, \<lparr>el_text = ''World''\<rparr>])
            ''doc.pdf'' =
          Inr (\<lparr>allText = ''Hello'' @ blank_line_sep @ ''World'', noOfSep = 4\<rparr>, out))"
  using ingest_joins_texts
      [of "\<lambda>p. Inr [\<lparr>el_text = ''''\<rparr>, \<lparr>el_text = ''Hello''\<rparr>, \<lparr>el_text = ''''\<rparr>, \<lparr>el_text = ''World''\<rparr>]"
        "''doc.pdf''"]
  by (simp add: eval_nat_numeral)

text \<open>
  C14. The warning of line 17 is printed, once, exactly when every element's text
  consists of whitespace only (no element, or only empty or blank texts); nothing else
  is printed.
\<close>

theorem ingest_warning_iff_blank:
  assumes "partition_fn file_path = Inr els" and "content_init partition_fn file_path = Inr (c, out)"
  shows "(out = [warn_no_text] \<longleftrightarrow> (\<forall>el \<in> set els. \<forall>ch \<in> set (el_text el). py_isspace ch)) \<and>
         (out = [] \<or> out = [warn_no_text])"
  using assms by (simp add: content_init_Inr split: if_splits)

theorem ingest_warning_iff_blank_witness:
  "(\<lambda>p. Inr [\<lparr>el_text = [CHR '' '', CHR 0x09]\<rparr>, \<lparr>el_text = ''''\<rparr>] :: string + element list) ''scan.png'' =
     Inr [\<lparr>el_text = [CHR '' '', CHR 0x09]\<rparr>, \<lparr>el_text = ''''\<rparr>] \<and>
   content_init (\<lambda>p. Inr [\<lparr>el_text = [CHR '' '', CHR 0x09]\<rparr>, \<lparr>el_text = ''''\<rparr>]) ''scan.png'' =
     Inr (\<lparr>allText = [CHR '' '', CHR 0x09], noOfSep = 2\<rparr>, [warn_no_text]) \<and>
   py_isspace (CHR '' '') \<and> py_isspace (CHR 0x09)"
proof -
  have run: "content_init (\<lambda>p. Inr [\<lparr>el_text = [CHR '' '', CHR 0x09]\<rparr>, \<lparr>el_text = ''''\<rparr>]) ''scan.png'' =
     Inr (\<lparr>allText = [CHR '' '', CHR 0x09], noOfSep = 2\<rparr>, [warn_no_text])"
    by (simp add: content_init_Inr py_isspace_def)
  have "py_isspace (CHR '' '') \<and> py_isspace (CHR 0x09)"
    by (simp add: py_isspace_def)
  then show ?thesis
    using ingest_warning_iff_blank [of "\<lambda>p. Inr [\<lparr>el_text = [CHR '' '', CHR 0x09]\<rparr>, \<lparr>el_text = ''''\<rparr>]"
        "''scan.png''" "[\<lparr>el_text = [CHR '' '', CHR 0x09]\<rparr>, \<lparr>el_text = ''''\<rparr>]" _ "[warn_no_text]",
        OF _ run] run
    by simp
qed

text \<open>
  C15. Round trip: when at least one element has text and no text contains a blank line
  or ends with a newline, splitting \<open>allText\<close> at blank lines gives back exactly the
  non-empty texts, in order.
\<close>

theorem ingest_roundtrip:
  assumes "partition_fn file_path = Inr els" and "content_init partition_fn file_path = Inr (c, out)"
    and "\<exists>el \<in> set els. el_text el \<noteq> []"
    and "\<forall>el \<in> set els. split_safe blank_line_sep (el_text el)"
  shows "py_split blank_line_sep (allText c) = filter (\<lambda>t. t \<noteq> []) (map el_text els)"
proof -
  have "allText c = py_join blank_line_sep (filter (\<lambda>t. t \<noteq> []) (map el_text els))"
    using assms(1,2) by (auto simp: content_init_Inr)
  moreover have "filter (\<lambda>t. t \<noteq> []) (map el_text els) \<noteq> []"
    using assms(3) by (auto simp: filter_empty_conv)
  moreover have "\<forall>t \<in> set (filter (\<lambda>t. t \<noteq> []) (map el_text els)). split_safe blank_line_sep t"
    using assms(4) by auto
  ultimately show ?thesis
    by (simp add: py_split_py_join)
qed

theorem ingest_roundtrip_witness:
  "(\<lambda>p. Inr [\<lparr>el_text = ''''\<rparr>, \<lparr>el_text = ''Hello''\<rparr>, \<lparr>el_text = ''''\<rparr>, \<lparr>el_text = ''World''\<rparr>] ::
      string + element list) ''doc.pdf'' =
     Inr [\<lparr>el_text = ''''\<rparr>, \<lparr>el_text = ''Hello''\<rparr>, \<lparr>el_text = ''''\<rparr>, \<lparr>el_text = ''World''\<rparr>] \<and>
   ''Hello'' \<noteq> [] \<and>
   split_safe blank_line_sep [] \<and> split_safe blank_line_sep ''Hello'' \<and>
   split_safe blank_line_sep ''World'' \<and>
   py_split blank_line_sep (''Hello'' @ blank_line_sep @ ''World'') = [''Hello'', ''World'']"
proof -
  have safe: "\<forall>el \<in> set [\<lparr>el_text = ''''\<rparr>, \<lparr>el_text = ''Hello''\<rparr>, \<lparr>el_text = ''''\<rparr>, \<lparr>el_text = ''World''\<rparr>].
      split_safe blank_line_sep (el_text el)"
    by (simp add: split_safe_def sublist_Cons_right)
  show ?thesis
    using ingest_roundtrip
        [of "\<lambda>p. Inr [\<lparr>el_text = ''''\<rparr>, \<lparr>el_text = ''Hello''\<rparr>, \<lparr>el_text = ''''\<rparr>,
                      \<lparr>el_text = ''World''\<rparr>]" "''doc.pdf''"
            "[\<lparr>el_text = ''''\<rparr>, \<lparr>el_text = ''Hello''\<rparr>, \<lparr>el_text = ''''\<rparr>, \<lparr>el_text = ''World''\<rparr>]",
         OF _ spec_example_ingest]
      safe
    by simp
qed

text \<open>
  C16. Divergence from specification section 4.1, which says a blank result is returned
  as the empty string: the code only prints the warning (line 16 tests
  \<open>allText.strip()\<close> but never assigns it), so texts of whitespace are kept in
  \<open>allText\<close>, which is then not empty.
\<close>

theorem ingest_blank_text_kept:
  assumes "partition_fn file_path = Inr els" and "content_init partition_fn file_path = Inr (c, out)"
    and "\<forall>el \<in> set els. \<forall>ch \<in> set (el_text el). py_isspace ch"
    and "\<exists>el \<in> set els. el_text el \<noteq> []"
  shows "out = [warn_no_text] \<and> allText c \<noteq> []"
  using assms by (auto simp: content_init_Inr py_join_empty_iff filter_empty_conv)

theorem ingest_blank_text_kept_witness:
  "(\<lambda>p. Inr [\<lparr>el_text = [CHR '' '', CHR 0x09]\<rparr>, \<lparr>el_text = ''''\<rparr>] :: string + element list) ''scan.png'' =
     Inr [\<lparr>el_text = [CHR '' '', CHR 0x09]\<rparr>, \<lparr>el_text = ''''\<rparr>] \<and>
   py_isspace (CHR '' '') \<and> py_isspace (CHR 0x09) \<and> [CHR '' '', CHR 0x09] \<noteq> [] \<and>
   content_init (\<lambda>p. Inr [\<lparr>el_text = [CHR '' '', CHR 0x09]\<rparr>, \<lparr>el_text = ''''\<rparr>]) ''scan.png'' =
     Inr (\<lparr>allText = [CHR '' '', CHR 0x09], noOfSep = 2\<rparr>, [warn_no_text])"
proof -
  have run: "content_init (\<lambda>p. Inr [\<lparr>el_text = [CHR '' '', CHR 0x09]\<rparr>, \<lparr>el_text = ''''\<rparr>]) ''scan.png'' =
     Inr (\<lparr>allText = [CHR '' '', CHR 0x09], noOfSep = 2\<rparr>, [warn_no_text])"
    by (simp add: content_init_Inr py_isspace_def)
  have sp: "\<forall>el \<in> set [\<lparr>el_text = [CHR '' '', CHR 0x09]\<rparr>, \<lparr>el_text = ''''\<rparr>]. \<forall>ch \<in> set (el_text el). py_isspace ch"
    by (simp add: py_isspace_def)
  show ?thesis
    using ingest_blank_text_kept
        [of "\<lambda>p. Inr [\<lparr>el_text = [CHR '' '', CHR 0x09]\<rparr>, \<lparr>el_text = ''''\<rparr>]" "''scan.png''"
            "[\<lparr>el_text = [CHR '' '', CHR 0x09]\<rparr>, \<lparr>el_text = ''''\<rparr>]", OF _ run sp]
      run sp
    by simp
qed

text \<open>
  C17. Specification section 4.1: the ingester adds no error handling of its own; an
  exception of the partitioner escapes the constructor unchanged.
\<close>

theorem ingest_partition_error:
  assumes "partition_fn file_path = Inl e"
  shows "content_init partition_fn file_path = Inl e"
  using assms by (simp add: content_init_def content_ingest_def)

theorem ingest_partition_error_witness:
  "(\<lambda>p. Inl ''unsupported file type'' :: string + element list) ''a.xyz'' = Inl ''unsupported file type'' \<and>
   content_init (\<lambda>p. Inl ''unsupported file type'') ''a.xyz'' = Inl ''unsupported file type''"
  using ingest_partition_error [of "\<lambda>p. Inl ''unsupported file type''" "''a.xyz''"] by simp

end
