(* ===== verification/Spec2Isabelle.thy ===== *)
theory Spec2Isabelle
  imports Player Content
begin

text \<open>
  A verification development for the repository Vaibhav-44/reelaigen: a document
  ingester and a timeline player for animation templates, two independent Python files.

  \<^bold>\<open>The program.\<close>
  \<^item> \<open>src/src/ingestion/content.py\<close>, class \<open>Content\<close>: calls the external
    partitioner of the \<open>unstructured\<close> library on a file, joins the non-empty texts of
    the elements it returns with a blank line (\<open>allText\<close>), counts the elements
    (\<open>noOfSep\<close>) and prints a warning when the text is blank.
  \<^item> \<open>src/src/main_generator.py\<close>: the registry \<open>TEMPLATE_MAP\<close> of twelve
    template constructors (imported from \<open>manim_helpers\<close>, outside the repository),
    the content normalizer \<open>convert_content_to_string\<close>, and the scene class
    \<open>ManimSceneGenerator\<close>, whose constructor loads a JSON timeline and whose method
    \<open>construct\<close> plays it: per entry, skip it when its duration is not positive,
    warn and skip when its template is unknown, build the object (warn and skip when the
    constructor raises), fade out what is on screen, fade the object in and hold it; at
    the end fade out what is left.
  The two files share nothing; the player calls the normalizer and the registry, and
  both call Python builtins on the values \<open>json.load\<close> produces.

  \<^bold>\<open>The theories.\<close>
  \<^item> \<open>Prelude\<close>: exceptions as values (\<open>err_bind\<close> on \<open>'e + 'a\<close>), Python's
    \<open>sep.join\<close> (\<open>py_join\<close>) and \<open>str.split\<close> (\<open>py_split\<close>) on lists, and the
    fact that splitting undoes joining when no piece hides the separator.
  \<^item> \<open>PyValue\<close>: the values of \<open>json.load\<close> (\<open>jval\<close>), Python's exceptions
    (\<open>pyexc\<close>), and the builtins the sources apply to values: \<open>str\<close>/\<open>repr\<close>
    (\<open>py_str\<close>, \<open>py_repr\<close>, with \<open>repr\<close> of strings, ints and floats),
    \<open>dict.get\<close> (\<open>py_get\<close>), subtraction (\<open>py_sub\<close>), hashing and iteration.
  \<^item> \<open>PathLib\<close>: the part of \<open>pathlib\<close> the constructor uses: the normalised
    string \<open>str(Path(p))\<close> (\<open>path_str\<close>) and the join \<open>Path(a) / b\<close>
    (\<open>path_join\<close>).
  \<^item> \<open>Templates\<close>: \<open>TEMPLATE_MAP\<close>, its lookup and the membership test of line 92.
  \<^item> \<open>Normalizer\<close>: \<open>convert_content_to_string\<close>, one equation per shape.
  \<^item> \<open>Player\<close>: the scene as a record (\<open>current_objects\<close> and the list of engine
    calls and prints made so far, \<open>effects\<close>); one function per part of the method:
    \<open>construct_item\<close> (one loop iteration, lines 81--118, every exit a branch),
    \<open>construct_loop\<close>, \<open>final_fade_out\<close>, \<open>construct\<close>; \<open>generator_init\<close>
    and \<open>load_json\<close> for the constructor (the file system a map from normalised paths
    to decoded documents); the abstract slot machine of specification section 4.3
    (\<open>slot_step\<close>, \<open>slot_run\<close>), the reachable scenes (\<open>player_reach\<close>), and
    the observations \<open>faded_in\<close> and \<open>shown_object\<close> for the order of playback.
  \<^item> \<open>Content\<close>: \<open>content_ingest\<close> and \<open>content_init\<close>, the partitioner a parameter.
  \<^item> This theory: properties of a whole run, from the file system to the calls made.

  \<^bold>\<open>Modelling choices.\<close>  Numbers are exact: JSON integers are \<open>int\<close>, JSON floats
  the decimals \<open>m \<times> 10^e\<close> they denote, arithmetic is on \<open>real\<close>.  Python instead
  parses a JSON float to the nearest double and rounds every operation, so the model
  departs from the program on three kinds of input: two different decimals that parse to
  the same double (\<open>0.1\<close> and \<open>0.10000000000000001\<close>: Python's duration is \<open>0.0\<close>
  and the entry is skipped, the model renders it); numbers beyond the range of doubles
  (\<open>1e400\<close> parses to \<open>inf\<close>, \<open>inf - inf\<close> is \<open>nan\<close>, and \<open>nan <= 0\<close> is
  false, so Python renders the entry, the model skips it); and the fade-in and hold times
  of lines 110--111, which Python rounds (\<open>1.5 * 0.3\<close> is \<open>0.44999999999999996\<close>,
  and \<open>5e-324 * 0.3\<close> is \<open>0.0\<close>).  The skip decision is exact for integer times and
  for decimal times that are exact doubles, the fade-in and hold times are exact only
  up to that rounding, and the properties are of the exact model.  Strings are
  sequences of code points below 256.  The animation engine, the template constructors
  and the document partitioner are parameters or are recorded as the calls made to
  them, never modelled inside.  No loop needs fuel: the player iterates over a finite
  list, and every function is total with structural or measured recursion.

  \<^bold>\<open>Not modelled.\<close>  Rendering itself (frames, timing of the engine), the internals
  of the template constructors and of the partitioner, parsing of JSON text (a file holds
  a decoded value or nothing), the special floats \<open>NaN\<close> and \<open>Infinity\<close> that
  Python's \<open>json\<close> accepts, and code points of 256 and above.

  \<^bold>\<open>Lemma groups.\<close>  \<open>Player\<close>: the calls of a sample run, the one-slot screen
  protocol (a run of \<open>construct\<close> is a run of \<open>slot_run\<close> from the empty screen
  back to it), the invariant of the reachable scenes, the skip, unknown-template and
  constructor-failure branches, and the exceptions raised by unhashable template names
  and non-numeric times.  \<open>Normalizer\<close>: the result of each
  shape, their order, the \<open>equation\<close> pass-through, and the newline round trip of lists.
  \<open>Content\<close>: the joined text, the count, the warning exactly on blank text, the round
  trip back to the element texts, and errors of the partitioner.  This theory: a missing
  file (with the path as \<open>pathlib\<close> prints it, and the default path), a top-level
  object instead of an array, and the order of playback of a whole run.

  \<^bold>\<open>Plan.\<close>  Done: all components above with claims C1--C21.  Next: JSON floats as
  doubles (the parse to the nearest double, \<open>inf\<close> and \<open>nan\<close>), which would make
  the skip decision and the timing exact to the program, and more properties of the
  builtins (the float \<open>repr\<close> read back).
\<close>

subsection \<open>Sample run\<close>

lemma demo_render:
  "render (\<lambda>p. if p = ''timeline.json'' then Some (JList [demo_entry1, demo_entry2]) else None)
     ''/app/src'' (Some ''./timeline.json'') demo_mk =
   Inr [FadeIn ''text_intro'' 1, Wait 4, FadeOut [''text_intro''] (1 / 2),
        FadeIn ''graph_plot'' (9 / 20), Wait (21 / 20), FadeOut [''graph_plot''] (1 / 2)]"
  by (simp add: render_def generator_init_def load_json_def construct_item_outcome demo_outcomes
      model_eval)

subsection \<open>Properties of a whole run\<close>

text \<open>
  C18. Specification section 7: a missing timeline file is fatal before any playback:
  the scene's constructor raises \<open>FileNotFoundError\<close> naming the path it looked at,
  as \<open>pathlib\<close> prints it (lines 73--75), and no engine call is made.  Without an
  argument the path is the example file beside the module (line 66).
\<close>

theorem render_missing_file:
  assumes "fs (path_str (case json_path_arg of None \<Rightarrow> default_json_path module_dir | Some p \<Rightarrow> p)) = None"
  shows "render fs module_dir json_path_arg mk =
           Inl (FileNotFoundError (''JSON file not found: '' @
                  path_str (case json_path_arg of None \<Rightarrow> default_json_path module_dir | Some p \<Rightarrow> p)), [])"
  using assms by (simp add: render_def generator_init_def load_json_def)

theorem render_missing_file_witness:
  "(\<lambda>p. None :: jval option) (path_str ''./data//t.json'') = None \<and>
   render (\<lambda>p. None) ''/app/src'' (Some ''./data//t.json'') demo_mk =
     Inl (FileNotFoundError (''JSON file not found: data/t.json''), []) \<and>
   render (\<lambda>p. None) ''/app/src'' None demo_mk =
     Inl (FileNotFoundError (''JSON file not found: /app/src/output/example_manim_json.json''), [])"
proof -
  have "render (\<lambda>p. None) ''/app/src'' (Some ''./data//t.json'') demo_mk =
          Inl (FileNotFoundError (''JSON file not found: '' @ path_str ''./data//t.json''), [])"
    using render_missing_file [of "\<lambda>p. None" "''/app/src''" "Some ''./data//t.json''" demo_mk]
    by simp
  moreover have "render (\<lambda>p. None) ''/app/src'' None demo_mk =
          Inl (FileNotFoundError (''JSON file not found: '' @
                 path_str (default_json_path ''/app/src'')), [])"
    using render_missing_file [of "\<lambda>p. None" "''/app/src''" None demo_mk]
    by simp
  ultimately show ?thesis
    by (simp add: default_json_path_def path_join_def model_eval)
qed

text \<open>
  C19. A gap of the specification, which requires the timeline to be a JSON array: a
  non-empty JSON object at the top level is iterated by its keys (line 81), and the first
  key, a string, has no \<open>get\<close> (line 82): the run ends with \<open>AttributeError\<close> before
  any engine call.
\<close>

theorem render_object_timeline_raises:
  assumes "fs (path_str path) = Some (JObj ((k, v) # kvs))"
  shows "render fs module_dir (Some path) mk =
           Inl (AttributeError ([CHR 0x27] @ ''str'' @ [CHR 0x27] @ '' object has no attribute '' @
                  [CHR 0x27] @ ''get'' @ [CHR 0x27]), [])"
  using assms
  by (simp add: render_def generator_init_def load_json_def construct_def construct_item_def py_get_def)

theorem render_object_timeline_raises_witness:
  "(\<lambda>p. Some (JObj [(''templateName'', JStr ''text_intro'')])) (path_str ''t.json'') =
     Some (JObj [(''templateName'', JStr ''text_intro'')]) \<and>
   render (\<lambda>p. Some (JObj [(''templateName'', JStr ''text_intro'')])) ''/app/src'' (Some ''t.json'') demo_mk =
     Inl (AttributeError ([CHR 0x27] @ ''str'' @ [CHR 0x27] @ '' object has no attribute '' @
                  [CHR 0x27] @ ''get'' @ [CHR 0x27]), [])"
  using render_object_timeline_raises
      [of "\<lambda>p. Some (JObj [(''templateName'', JStr ''text_intro'')])" "''t.json''" "''templateName''"
        "JStr ''text_intro''" "[]" "''/app/src''" demo_mk]
  by simp

text \<open>
  C21. Specification section 3: the order of the array is the order of playback.  When
  a run over a timeline array returns, the objects it fades in are, in order and each
  once, the objects of the entries that render, in the order of the array: nothing is
  sorted by time, and a skipped, unknown or failing entry puts nothing on screen.
\<close>

theorem render_playback_order:
  assumes "fs (path_str path) = Some (JList items)"
    and "render fs module_dir (Some path) mk = Inr effs"
  shows "faded_in effs = concat (map (shown_object mk) items)"
proof -
  from assms obtain s where s: "construct mk (JList items)
      \<lparr>current_objects = [], effects = [], json_path = path, template_data = JList items\<rparr> = Inr s"
    and effs: "effs = effects s"
    by (auto simp: render_def generator_init_def load_json_def split: sum.splits prod.splits)
  from construct_faded_in [OF _ s] show ?thesis
    by (simp add: effs)
qed

theorem render_playback_order_witness:
  "(\<lambda>p. if p = ''timeline.json'' then Some (JList [demo_entry1, demo_entry2]) else None)
      (path_str ''./timeline.json'') = Some (JList [demo_entry1, demo_entry2]) \<and>
   render (\<lambda>p. if p = ''timeline.json'' then Some (JList [demo_entry1, demo_entry2]) else None)
     ''/app/src'' (Some ''./timeline.json'') demo_mk =
   Inr [FadeIn ''text_intro'' 1, Wait 4, FadeOut [''text_intro''] (1 / 2),
        FadeIn ''graph_plot'' (9 / 20), Wait (21 / 20), FadeOut [''graph_plot''] (1 / 2)] \<and>
   faded_in [FadeIn ''text_intro'' 1, Wait 4, FadeOut [''text_intro''] (1 / 2),
        FadeIn ''graph_plot'' (9 / 20), Wait (21 / 20), FadeOut [''graph_plot''] (1 / 2)] =
     concat (map (shown_object demo_mk) [demo_entry1, demo_entry2])"
  using render_playback_order
      [of "\<lambda>p. if p = ''timeline.json'' then Some (JList [demo_entry1, demo_entry2]) else None"
        "''./timeline.json''" "[demo_entry1, demo_entry2]" "''/app/src''" demo_mk]
    demo_render
  by (simp add: shown_object_def demo_outcomes model_eval)

end
